theory Spec2Isabelle
  imports Main
begin

section \<open>Event-to-state reconciliation of MetaMorpho vaults\<close>

text \<open>
  A shallow embedding of the indexing functions of \<^verbatim>\<open>apps/ponder/src/MetaMorpho.ts\<close>.
  Every handler \<^verbatim>\<open>ponder.on("MetaMorpho:X", async ({ event, context }) => ...)\<close> becomes
  a function from the entity store before the event to either an error (the handler
  throws, and none of its writes is kept) or the entity store after the event.

  The handler of the factory event \<^verbatim>\<open>MetaMorphoFactory:CreateMetaMorpho\<close>, which inserts
  the vault row with the column defaults of the schema, is outside the embedding: the
  properties below are about stores in which a vault row is there or is not.
\<close>

subsection \<open>Values\<close>

text \<open>
  Addresses, market ids and transaction hashes are hex strings compared with \<^verbatim>\<open>===\<close>.
  An event argument of Solidity type \<^verbatim>\<open>uint256\<close> is decoded to a non-negative
  \<^verbatim>\<open>bigint\<close>, modelled as \<^typ>\<open>nat\<close>; a \<^verbatim>\<open>bigint\<close> column is an unbounded integer
  that the handlers add to and subtract from, modelled as \<^typ>\<open>int\<close>.
\<close>

type_synonym address = string
type_synonym hex = string

definition zeroAddress :: address where
  "zeroAddress = ''0x0000000000000000000000000000000000000000''"

subsection \<open>The tables\<close>

record vault_row =
  asset :: address
  decimalsUnderlying :: int
  decimalsOffset :: int
  owner :: address
  pendingOwner :: address
  curator :: address
  guardian :: address
  pendingGuardian :: address
  pendingGuardianValidAt :: int
  timelock :: int
  pendingTimelock :: int
  pendingTimelockValidAt :: int
  fee :: int
  feeRecipient :: address
  skimRecipient :: address
  name :: string
  symbol :: string
  totalSupply :: int
  lastTotalAssets :: int
  lostAssets :: int
  supplyQueueLength :: nat
  withdrawQueueLength :: nat
  allocators :: "address list"

record balance_row =
  shares :: int

record config_row =
  cap :: int
  pendingCap :: int
  pendingCapValidAt :: int
  enabled :: bool
  removableAt :: int

record queue_row =
  marketId :: "hex option"

datatype transaction_type =
    MetaMorphoDeposit
  | MetaMorphoWithdraw
  | MetaMorphoFee
  | VaultReallocateSupply
  | VaultReallocateWithdraw
  | MetaMorphoTransfer

record transaction_row =
  blockNumber :: int
  timestamp :: int
  type_tag :: transaction_type
  user :: address
  sender :: address
  receiver :: "address option"
  vaultAddress :: address
  tx_marketId :: "hex option"
  vaultShares :: int
  vaultAssets :: int

text \<open>
  Modelled from the spec: the primary keys of the tables. They are declared in
  \<^verbatim>\<open>ponder.schema.ts\<close>, which the handlers import as \<^verbatim>\<open>ponder:schema\<close>. The spec gives
  one Vault row per (chain, contract address), one ConfigItem per (chain, vault
  address, market id), one BalanceRecord per vault and holder, one QueueItem per
  vault, queue kind and ordinal position, and one TransactionRecord per (chain,
  transaction hash, log index). The handlers address the rows with exactly these
  columns.
\<close>

type_synonym vault_key = "nat \<times> address"
type_synonym balance_key = "nat \<times> address \<times> address"
type_synonym config_key = "nat \<times> address \<times> hex"
type_synonym queue_key = "nat \<times> address \<times> nat"
type_synonym transaction_key = "nat \<times> hex \<times> nat"

text \<open>A table is the list of its rows, each under its primary key, in insertion order.\<close>

type_synonym ('k, 'r) table = "('k \<times> 'r) list"

record db =
  vault :: "(vault_key, vault_row) table"
  vaultBalance :: "(balance_key, balance_row) table"
  vaultConfigItem :: "(config_key, config_row) table"
  vaultSupplyQueueItem :: "(queue_key, queue_row) table"
  vaultWithdrawQueueItem :: "(queue_key, queue_row) table"
  transaction :: "(transaction_key, transaction_row) table"

subsection \<open>The store interface \<^verbatim>\<open>context.db\<close>\<close>

datatype table_name =
    T_vault
  | T_vaultBalance
  | T_vaultConfigItem
  | T_vaultSupplyQueueItem
  | T_vaultWithdrawQueueItem
  | T_transaction

text \<open>
  The handlers run against one of two stores behind \<^verbatim>\<open>context.db\<close>: the historical
  store, a cache that is filled while the past of the chain is indexed, and the realtime
  store, which writes to the database once the indexer has caught up. The two answer
  alike except where a row is missing or a key is taken:
  \<^item> \<^verbatim>\<open>find\<close> answers \<^verbatim>\<open>null\<close> for a missing row on both;
  \<^item> \<^verbatim>\<open>update(...).set((row) => ...)\<close>, with a function, throws for a missing row on
    both (\<^verbatim>\<open>No existing record found in table '...'\<close>);
  \<^item> \<^verbatim>\<open>update(...).set({...})\<close>, with an object of columns, throws for a missing row on
    the historical store and returns without a write on the realtime store;
  \<^item> \<^verbatim>\<open>insert(...).values(row)\<close> for a key that is taken throws on the realtime store;
    the historical store does not look at the key and keeps the new row under it;
  \<^item> \<^verbatim>\<open>insert(...).values(row).onConflictDoUpdate(f)\<close> is an upsert on both
    (\<^verbatim>\<open>Row may or may not exist yet, so we have to upsert\<close>).
\<close>

datatype store_kind = Historical | Realtime

text \<open>
  The errors a handler can throw: an update of a row that does not exist, an insert of
  a row whose key is taken, and a failed \<^verbatim>\<open>readContract\<close>.
\<close>

datatype error =
    RecordNotFound table_name
  | UniqueConstraint table_name
  | ContractCallFailed

text \<open>\<^verbatim>\<open>db.find(table, key)\<close>: the row, or \<^verbatim>\<open>null\<close>.\<close>

definition db_find :: "('k, 'r) table \<Rightarrow> 'k \<Rightarrow> 'r option" where
  "db_find t k = map_of t k"

text \<open>Overwrite the row stored under a key, in place.\<close>

fun put_row :: "'k \<Rightarrow> 'r \<Rightarrow> ('k, 'r) table \<Rightarrow> ('k, 'r) table" where
  "put_row k r [] = [(k, r)]"
| "put_row k r (p # ps) = (if fst p = k then (k, r) # ps else p # put_row k r ps)"

text \<open>
  \<^verbatim>\<open>db.insert(table).values(row)\<close>. When the key is taken, the realtime store throws and
  the historical store replaces the row.
\<close>

definition db_insert ::
  "store_kind \<Rightarrow> table_name \<Rightarrow> ('k, 'r) table \<Rightarrow> 'k \<Rightarrow> 'r \<Rightarrow> error + ('k, 'r) table" where
  "db_insert st n t k r =
     (case db_find t k of
        Some _ \<Rightarrow>
          (case st of
             Historical \<Rightarrow> Inr (put_row k r t)
           | Realtime \<Rightarrow> Inl (UniqueConstraint n))
      | None \<Rightarrow> Inr (t @ [(k, r)]))"

text \<open>
  \<^verbatim>\<open>db.insert(table).values(row).onConflictDoUpdate(f)\<close>: inserts the row, or
  applies \<^verbatim>\<open>f\<close> to the row that is there.
\<close>

definition db_upsert ::
  "('k, 'r) table \<Rightarrow> 'k \<Rightarrow> 'r \<Rightarrow> ('r \<Rightarrow> 'r) \<Rightarrow> ('k, 'r) table" where
  "db_upsert t k r f =
     (case db_find t k of
        Some old \<Rightarrow> put_row k (f old) t
      | None \<Rightarrow> t @ [(k, r)])"

text \<open>
  The write of an upsert whose read of the row has been made before: \<open>seen\<close> is what the
  read found.
\<close>

definition upsert_write ::
  "('k, 'r) table \<Rightarrow> 'k \<Rightarrow> 'r \<Rightarrow> ('r \<Rightarrow> 'r) \<Rightarrow> 'r option \<Rightarrow> ('k, 'r) table" where
  "upsert_write t k r f seen =
     (case seen of
        Some old \<Rightarrow> put_row k (f old) t
      | None \<Rightarrow> t @ [(k, r)])"

text \<open>
  \<^verbatim>\<open>db.update(table, key).set((row) => ...)\<close>, the function form: fails on both stores
  when there is no such row.
\<close>

definition db_update_fn ::
  "table_name \<Rightarrow> ('k, 'r) table \<Rightarrow> 'k \<Rightarrow> ('r \<Rightarrow> 'r) \<Rightarrow> error + ('k, 'r) table" where
  "db_update_fn n t k f =
     (case db_find t k of
        None \<Rightarrow> Inl (RecordNotFound n)
      | Some old \<Rightarrow> Inr (put_row k (f old) t))"

text \<open>
  \<^verbatim>\<open>db.update(table, key).set({...})\<close>, the object form, where \<open>f\<close> assigns the columns of
  the object: when there is no such row, the historical store fails and the realtime
  store returns and writes nothing.
\<close>

definition db_update_set ::
  "store_kind \<Rightarrow> table_name \<Rightarrow> ('k, 'r) table \<Rightarrow> 'k \<Rightarrow> ('r \<Rightarrow> 'r) \<Rightarrow> error + ('k, 'r) table"
  where
  "db_update_set st n t k f =
     (case db_find t k of
        None \<Rightarrow>
          (case st of
             Historical \<Rightarrow> Inl (RecordNotFound n)
           | Realtime \<Rightarrow> Inr t)
      | Some old \<Rightarrow> Inr (put_row k (f old) t))"

text \<open>Sequencing of two steps of a handler: the first error ends it.\<close>

definition and_then :: "error + 'a \<Rightarrow> ('a \<Rightarrow> error + 'b) \<Rightarrow> error + 'b" where
  "and_then m f = (case m of Inl e \<Rightarrow> Inl e | Inr x \<Rightarrow> f x)"

subsection \<open>Events and the contract client\<close>

datatype event_args =
    OwnershipTransferStarted address
  | OwnershipTransferred address
  | SubmitCap hex nat
  | SubmitGuardian address
  | SubmitMarketRemoval hex
  | SubmitTimelock nat
  | RevokePendingCap hex
  | RevokePendingGuardian
  | RevokePendingMarketRemoval hex
  | RevokePendingTimelock
  | SetCap hex nat
  | SetCurator address
  | SetFee nat
  | SetFeeRecipient address
  | SetGuardian address
  | SetIsAllocator address bool
  | SetName string
  | SetSkimRecipient address
  | SetSymbol string
  | SetTimelock nat
  | SetSupplyQueue "hex list"
  | SetWithdrawQueue "hex list"
  | Deposit address address nat nat
  | Withdraw address address address nat nat
  | AccrueInterest nat nat
  | ReallocateSupply address hex nat nat
  | ReallocateWithdraw address hex nat nat
  | Transfer address address nat
  | UpdateLastTotalAssets nat
  | UpdateLostAssets nat

text \<open>
  What every event carries: \<^verbatim>\<open>context.chain.id\<close>, \<^verbatim>\<open>event.log.address\<close>,
  \<^verbatim>\<open>event.log.logIndex\<close>, \<^verbatim>\<open>event.block.number\<close>, \<^verbatim>\<open>event.block.timestamp\<close>,
  \<^verbatim>\<open>event.transaction.hash\<close> and the decoded arguments.
\<close>

record event =
  chain_id :: nat
  log_address :: address
  log_logIndex :: nat
  block_number :: nat
  block_timestamp :: nat
  transaction_hash :: hex
  args :: event_args

text \<open>
  What a handler reads besides the store and the event. \<^verbatim>\<open>convertToAssets\<close> is
  \<^verbatim>\<open>context.client.readContract\<close> with \<^verbatim>\<open>functionName: "convertToAssets"\<close> on the
  vault of the given chain and address: the contract's answer, or \<^verbatim>\<open>None\<close> when the call
  throws. \<^verbatim>\<open>cap_default\<close> is the value that the \<^verbatim>\<open>cap\<close> column of a ConfigItem takes
  when a row is inserted without one; it is declared in \<^verbatim>\<open>ponder.schema.ts\<close> and is a
  parameter here. \<^verbatim>\<open>store\<close> says which of the two stores is behind \<^verbatim>\<open>context.db\<close>.
\<close>

record handler_context =
  convertToAssets :: "nat \<Rightarrow> address \<Rightarrow> nat \<Rightarrow> nat option"
  cap_default :: int
  store :: store_kind

definition vault_pk :: "event \<Rightarrow> vault_key" where
  "vault_pk ev = (chain_id ev, log_address ev)"

definition transaction_pk :: "event \<Rightarrow> transaction_key" where
  "transaction_pk ev = (chain_id ev, transaction_hash ev, log_logIndex ev)"

definition config_pk :: "event \<Rightarrow> hex \<Rightarrow> config_key" where
  "config_pk ev mid = (chain_id ev, log_address ev, mid)"

text \<open>\<^verbatim>\<open>{ ...pk, user }\<close> with \<^verbatim>\<open>pk = { chainId: context.chain.id, vault: event.log.address }\<close>\<close>

definition balance_pk :: "event \<Rightarrow> address \<Rightarrow> balance_key" where
  "balance_pk ev u = (chain_id ev, log_address ev, u)"

text \<open>The key of the queue row at an ordinal, in either queue table of the event's vault.\<close>

definition queue_pk :: "event \<Rightarrow> nat \<Rightarrow> queue_key" where
  "queue_pk ev i = (chain_id ev, log_address ev, i)"

text \<open>
  \<^verbatim>\<open>(await context.db.find(vault, ...)) ?? { timelock: 0n }\<close>, of which only
  \<^verbatim>\<open>timelock\<close> is read.
\<close>

definition timelock_or_zero :: "db \<Rightarrow> event \<Rightarrow> int" where
  "timelock_or_zero s ev =
     (case db_find (vault s) (vault_pk ev) of None \<Rightarrow> 0 | Some row \<Rightarrow> timelock row)"

text \<open>\<^verbatim>\<open>context.db.update(vault, { chainId, address }).set({...})\<close>\<close>

definition update_vault ::
  "handler_context \<Rightarrow> db \<Rightarrow> event \<Rightarrow> (vault_row \<Rightarrow> vault_row) \<Rightarrow> error + db" where
  "update_vault ctx s ev f =
     and_then (db_update_set (store ctx) T_vault (vault s) (vault_pk ev) f)
       (\<lambda>t. Inr (s\<lparr>vault := t\<rparr>))"

text \<open>\<^verbatim>\<open>context.db.update(vault, { chainId, address }).set((row) => ...)\<close>\<close>

definition update_vault_fn :: "db \<Rightarrow> event \<Rightarrow> (vault_row \<Rightarrow> vault_row) \<Rightarrow> error + db" where
  "update_vault_fn s ev f =
     and_then (db_update_fn T_vault (vault s) (vault_pk ev) f) (\<lambda>t. Inr (s\<lparr>vault := t\<rparr>))"

text \<open>
  The \<^verbatim>\<open>try { update } catch (e) { if (String(e).includes("No existing record found
  in table 'vault'")) return; throw ... }\<close> of the events a vault emits in its constructor.
\<close>

definition update_vault_if_exists ::
  "handler_context \<Rightarrow> db \<Rightarrow> event \<Rightarrow> (vault_row \<Rightarrow> vault_row) \<Rightarrow> error + db" where
  "update_vault_if_exists ctx s ev f =
     (case update_vault ctx s ev f of
        Inl e \<Rightarrow> (if e = RecordNotFound T_vault then Inr s else Inl e)
      | Inr s' \<Rightarrow> Inr s')"

text \<open>\<^verbatim>\<open>context.db.update(vaultConfigItem, { chainId, address, marketId }).set({...})\<close>\<close>

definition update_config ::
  "handler_context \<Rightarrow> db \<Rightarrow> event \<Rightarrow> hex \<Rightarrow> (config_row \<Rightarrow> config_row) \<Rightarrow> error + db" where
  "update_config ctx s ev mid f =
     and_then
       (db_update_set (store ctx) T_vaultConfigItem (vaultConfigItem s) (config_pk ev mid) f)
       (\<lambda>t. Inr (s\<lparr>vaultConfigItem := t\<rparr>))"

text \<open>
  \<^verbatim>\<open>context.db.insert(vaultConfigItem).values(row).onConflictDoUpdate(f)\<close>, where the
  inserted row leaves \<^verbatim>\<open>cap\<close> to the column default.
\<close>

definition upsert_config ::
  "db \<Rightarrow> event \<Rightarrow> hex \<Rightarrow> config_row \<Rightarrow> (config_row \<Rightarrow> config_row) \<Rightarrow> db" where
  "upsert_config s ev mid row f =
     s\<lparr>vaultConfigItem := db_upsert (vaultConfigItem s) (config_pk ev mid) row f\<rparr>"

subsection \<open>Ownership\<close>

definition MetaMorpho_OwnershipTransferStarted :: "handler_context \<Rightarrow> db \<Rightarrow> event \<Rightarrow> address \<Rightarrow> error + db" where
  "MetaMorpho_OwnershipTransferStarted ctx s ev newOwner =
     update_vault ctx s ev (\<lambda>row. row\<lparr>pendingOwner := newOwner\<rparr>)"

definition MetaMorpho_OwnershipTransferred :: "handler_context \<Rightarrow> db \<Rightarrow> event \<Rightarrow> address \<Rightarrow> error + db" where
  "MetaMorpho_OwnershipTransferred ctx s ev newOwner =
     update_vault_if_exists ctx s ev (\<lambda>row. row\<lparr>owner := newOwner, pendingOwner := zeroAddress\<rparr>)"

subsection \<open>Submit\<close>

definition MetaMorpho_SubmitCap :: "handler_context \<Rightarrow> db \<Rightarrow> event \<Rightarrow> hex \<Rightarrow> nat \<Rightarrow> error + db" where
  "MetaMorpho_SubmitCap ctx s ev mid c =
     (let tl = timelock_or_zero s ev in
      Inr (upsert_config s ev mid
        \<lparr>cap = cap_default ctx,
         pendingCap = int c,
         pendingCapValidAt = int (block_timestamp ev) + tl,
         enabled = False,
         removableAt = 0\<rparr>
        (\<lambda>row. row\<lparr>pendingCap := int c,
                    pendingCapValidAt := int (block_timestamp ev) + tl\<rparr>)))"

definition MetaMorpho_SubmitGuardian :: "handler_context \<Rightarrow> db \<Rightarrow> event \<Rightarrow> address \<Rightarrow> error + db" where
  "MetaMorpho_SubmitGuardian ctx s ev newGuardian =
     (let tl = timelock_or_zero s ev in
      update_vault ctx s ev
        (\<lambda>row. row\<lparr>pendingGuardian := newGuardian,
                    pendingGuardianValidAt := int (block_timestamp ev) + tl\<rparr>))"

definition MetaMorpho_SubmitMarketRemoval :: "handler_context \<Rightarrow> db \<Rightarrow> event \<Rightarrow> hex \<Rightarrow> error + db" where
  "MetaMorpho_SubmitMarketRemoval ctx s ev mid =
     (let tl = timelock_or_zero s ev in
      update_config ctx s ev mid (\<lambda>row. row\<lparr>removableAt := int (block_timestamp ev) + tl\<rparr>))"

definition MetaMorpho_SubmitTimelock :: "handler_context \<Rightarrow> db \<Rightarrow> event \<Rightarrow> nat \<Rightarrow> error + db" where
  "MetaMorpho_SubmitTimelock ctx s ev newTimelock =
     (let tl = timelock_or_zero s ev in
      update_vault ctx s ev
        (\<lambda>row. row\<lparr>pendingTimelock := int newTimelock,
                    pendingTimelockValidAt := int (block_timestamp ev) + tl\<rparr>))"

subsection \<open>Revoke\<close>

definition MetaMorpho_RevokePendingCap :: "handler_context \<Rightarrow> db \<Rightarrow> event \<Rightarrow> hex \<Rightarrow> error + db" where
  "MetaMorpho_RevokePendingCap ctx s ev mid =
     Inr (upsert_config s ev mid
       \<lparr>cap = cap_default ctx, pendingCap = 0, pendingCapValidAt = 0,
        enabled = False, removableAt = 0\<rparr>
       (\<lambda>row. row\<lparr>pendingCap := 0, pendingCapValidAt := 0\<rparr>))"

definition MetaMorpho_RevokePendingGuardian :: "handler_context \<Rightarrow> db \<Rightarrow> event \<Rightarrow> error + db" where
  "MetaMorpho_RevokePendingGuardian ctx s ev =
     update_vault ctx s ev (\<lambda>row. row\<lparr>pendingGuardian := zeroAddress, pendingGuardianValidAt := 0\<rparr>)"

definition MetaMorpho_RevokePendingMarketRemoval ::
  "handler_context \<Rightarrow> db \<Rightarrow> event \<Rightarrow> hex \<Rightarrow> error + db" where
  "MetaMorpho_RevokePendingMarketRemoval ctx s ev mid =
     Inr (upsert_config s ev mid
       \<lparr>cap = cap_default ctx, pendingCap = 0, pendingCapValidAt = 0,
        enabled = False, removableAt = 0\<rparr>
       (\<lambda>row. row\<lparr>removableAt := 0\<rparr>))"

definition MetaMorpho_RevokePendingTimelock :: "handler_context \<Rightarrow> db \<Rightarrow> event \<Rightarrow> error + db" where
  "MetaMorpho_RevokePendingTimelock ctx s ev =
     update_vault ctx s ev (\<lambda>row. row\<lparr>pendingTimelock := 0, pendingTimelockValidAt := 0\<rparr>)"

subsection \<open>Set\<close>

text \<open>
  The object spread \<^verbatim>\<open>...(event.args.cap > 0n ? { enabled: true, removableAt: 0n } : {})\<close>
  adds the two columns to the update only for a positive cap.
\<close>

definition MetaMorpho_SetCap :: "handler_context \<Rightarrow> db \<Rightarrow> event \<Rightarrow> hex \<Rightarrow> nat \<Rightarrow> error + db" where
  "MetaMorpho_SetCap ctx s ev mid c =
     update_config ctx s ev mid
       (\<lambda>row. let row' = row\<lparr>cap := int c, pendingCap := 0, pendingCapValidAt := 0\<rparr>
              in if c > 0 then row'\<lparr>enabled := True, removableAt := 0\<rparr> else row')"

definition MetaMorpho_SetCurator :: "handler_context \<Rightarrow> db \<Rightarrow> event \<Rightarrow> address \<Rightarrow> error + db" where
  "MetaMorpho_SetCurator ctx s ev newCurator =
     update_vault ctx s ev (\<lambda>row. row\<lparr>curator := newCurator\<rparr>)"

definition MetaMorpho_SetFee :: "handler_context \<Rightarrow> db \<Rightarrow> event \<Rightarrow> nat \<Rightarrow> error + db" where
  "MetaMorpho_SetFee ctx s ev newFee =
     update_vault ctx s ev (\<lambda>row. row\<lparr>fee := int newFee\<rparr>)"

definition MetaMorpho_SetFeeRecipient :: "handler_context \<Rightarrow> db \<Rightarrow> event \<Rightarrow> address \<Rightarrow> error + db" where
  "MetaMorpho_SetFeeRecipient ctx s ev newFeeRecipient =
     update_vault ctx s ev (\<lambda>row. row\<lparr>feeRecipient := newFeeRecipient\<rparr>)"

definition MetaMorpho_SetGuardian :: "handler_context \<Rightarrow> db \<Rightarrow> event \<Rightarrow> address \<Rightarrow> error + db" where
  "MetaMorpho_SetGuardian ctx s ev g =
     update_vault ctx s ev
       (\<lambda>row. row\<lparr>guardian := g, pendingGuardian := zeroAddress, pendingGuardianValidAt := 0\<rparr>)"

text \<open>
  \<^verbatim>\<open>new Set(xs)\<close> keeps the first occurrence of every element, in order; \<^verbatim>\<open>add\<close>
  appends an element that is not there, \<^verbatim>\<open>delete\<close> removes it, and \<^verbatim>\<open>[...set]\<close> lists
  the elements in insertion order.
\<close>

fun js_set :: "'a list \<Rightarrow> 'a list \<Rightarrow> 'a list" where
  "js_set acc [] = acc"
| "js_set acc (x # xs) = js_set (if x \<in> set acc then acc else acc @ [x]) xs"

definition MetaMorpho_SetIsAllocator :: "db \<Rightarrow> event \<Rightarrow> address \<Rightarrow> bool \<Rightarrow> error + db" where
  "MetaMorpho_SetIsAllocator s ev allocator isAllocator =
     update_vault_fn s ev
       (\<lambda>row. let st = js_set [] (allocators row)
              in row\<lparr>allocators :=
                   (if isAllocator then (if allocator \<in> set st then st else st @ [allocator])
                    else filter (\<lambda>x. x \<noteq> allocator) st)\<rparr>)"

definition MetaMorpho_SetName :: "handler_context \<Rightarrow> db \<Rightarrow> event \<Rightarrow> string \<Rightarrow> error + db" where
  "MetaMorpho_SetName ctx s ev n =
     update_vault_if_exists ctx s ev (\<lambda>row. row\<lparr>name := n\<rparr>)"

definition MetaMorpho_SetSkimRecipient :: "handler_context \<Rightarrow> db \<Rightarrow> event \<Rightarrow> address \<Rightarrow> error + db" where
  "MetaMorpho_SetSkimRecipient ctx s ev newSkimRecipient =
     update_vault ctx s ev (\<lambda>row. row\<lparr>skimRecipient := newSkimRecipient\<rparr>)"

definition MetaMorpho_SetSymbol :: "handler_context \<Rightarrow> db \<Rightarrow> event \<Rightarrow> string \<Rightarrow> error + db" where
  "MetaMorpho_SetSymbol ctx s ev sy =
     update_vault_if_exists ctx s ev (\<lambda>row. row\<lparr>symbol := sy\<rparr>)"

definition MetaMorpho_SetTimelock :: "handler_context \<Rightarrow> db \<Rightarrow> event \<Rightarrow> nat \<Rightarrow> error + db" where
  "MetaMorpho_SetTimelock ctx s ev newTimelock =
     update_vault_if_exists ctx s ev
       (\<lambda>row. row\<lparr>timelock := int newTimelock, pendingTimelock := 0,
                   pendingTimelockValidAt := 0\<rparr>)"

subsection \<open>Queues\<close>

text \<open>\<^verbatim>\<open>xs.at(i)\<close> for an index that is not negative: \<^verbatim>\<open>undefined\<close> past the end.\<close>

definition at :: "'a list \<Rightarrow> nat \<Rightarrow> 'a option" where
  "at xs i = (if i < length xs then Some (xs ! i) else None)"

definition getQueueItems ::
  "nat \<Rightarrow> address \<Rightarrow> nat \<Rightarrow> hex list \<Rightarrow> (queue_key, queue_row) table" where
  "getQueueItems chainId addr oldLength newQueue =
     map (\<lambda>ordinal. ((chainId, addr, ordinal), \<lparr>marketId = at newQueue ordinal\<rparr>))
       [0 ..< max oldLength (length newQueue)]"

text \<open>
  The queue handlers start from \<^verbatim>\<open>let length = 0\<close> and let the \<^verbatim>\<open>set\<close> callback of the
  vault update store the old queue length of the row in it, before the row gets the new
  length.

  \<^verbatim>\<open>db.insert(table).values(values).onConflictDoUpdate((row) => ({ marketId:
  values.at(row.ordinal)?.marketId ?? null }))\<close>: the rows are written one after the
  other; \<^verbatim>\<open>row.ordinal\<close> is the ordinal of the row in conflict, the last component of
  its key.
\<close>

definition upsert_queue_items ::
  "(queue_key, queue_row) table \<Rightarrow> (queue_key, queue_row) table \<Rightarrow> (queue_key, queue_row) table"
  where
  "upsert_queue_items t vals =
     fold (\<lambda>(k, r) t'. db_upsert t' k r
             (\<lambda>row. row\<lparr>marketId :=
                (case at vals (snd (snd k)) of None \<Rightarrow> None | Some v \<Rightarrow> marketId (snd v))\<rparr>))
       vals t"

definition MetaMorpho_SetSupplyQueue :: "db \<Rightarrow> event \<Rightarrow> hex list \<Rightarrow> error + db" where
  "MetaMorpho_SetSupplyQueue s ev newSupplyQueue =
     (let len = (case db_find (vault s) (vault_pk ev) of
                   None \<Rightarrow> 0
                 | Some row \<Rightarrow> supplyQueueLength row)
      in and_then
           (update_vault_fn s ev (\<lambda>row. row\<lparr>supplyQueueLength := length newSupplyQueue\<rparr>))
           (\<lambda>s1. let vals = getQueueItems (chain_id ev) (log_address ev) len newSupplyQueue
                  in Inr (s1\<lparr>vaultSupplyQueueItem :=
                            upsert_queue_items (vaultSupplyQueueItem s1) vals\<rparr>)))"

definition MetaMorpho_SetWithdrawQueue :: "db \<Rightarrow> event \<Rightarrow> hex list \<Rightarrow> error + db" where
  "MetaMorpho_SetWithdrawQueue s ev newWithdrawQueue =
     (let len = (case db_find (vault s) (vault_pk ev) of
                   None \<Rightarrow> 0
                 | Some row \<Rightarrow> withdrawQueueLength row)
      in and_then
           (update_vault_fn s ev (\<lambda>row. row\<lparr>withdrawQueueLength := length newWithdrawQueue\<rparr>))
           (\<lambda>s1. let vals = getQueueItems (chain_id ev) (log_address ev) len newWithdrawQueue
                  in Inr (s1\<lparr>vaultWithdrawQueueItem :=
                            upsert_queue_items (vaultWithdrawQueueItem s1) vals\<rparr>)))"

subsection \<open>Shares and assets\<close>

text \<open>\<^verbatim>\<open>context.db.insert(transaction).values({ chainId, hash, logIndex, ... })\<close>\<close>

definition insert_transaction ::
  "handler_context \<Rightarrow> db \<Rightarrow> event \<Rightarrow> transaction_row \<Rightarrow> error + db" where
  "insert_transaction ctx s ev row =
     and_then (db_insert (store ctx) T_transaction (transaction s) (transaction_pk ev) row)
       (\<lambda>t. Inr (s\<lparr>transaction := t\<rparr>))"

definition MetaMorpho_Deposit ::
  "handler_context \<Rightarrow> db \<Rightarrow> event \<Rightarrow> address \<Rightarrow> address \<Rightarrow> nat \<Rightarrow> nat \<Rightarrow> error + db" where
  "MetaMorpho_Deposit ctx s ev sender_arg owner_arg assets shares_arg =
     (if shares_arg = 0 then Inr s
      else insert_transaction ctx s ev
        \<lparr>blockNumber = int (block_number ev),
         timestamp = int (block_timestamp ev),
         type_tag = MetaMorphoDeposit,
         user = owner_arg,
         sender = sender_arg,
         receiver = None,
         vaultAddress = log_address ev,
         tx_marketId = None,
         vaultShares = int shares_arg,
         vaultAssets = int assets\<rparr>)"

definition MetaMorpho_Withdraw ::
  "handler_context \<Rightarrow> db \<Rightarrow> event \<Rightarrow> address \<Rightarrow> address \<Rightarrow> address \<Rightarrow> nat \<Rightarrow> nat \<Rightarrow> error + db" where
  "MetaMorpho_Withdraw ctx s ev sender_arg receiver_arg owner_arg assets shares_arg =
     (if shares_arg = 0 then Inr s
      else insert_transaction ctx s ev
        \<lparr>blockNumber = int (block_number ev),
         timestamp = int (block_timestamp ev),
         type_tag = MetaMorphoWithdraw,
         user = owner_arg,
         sender = sender_arg,
         receiver = Some receiver_arg,
         vaultAddress = log_address ev,
         tx_marketId = None,
         vaultShares = int shares_arg,
         vaultAssets = int assets\<rparr>)"

definition MetaMorpho_AccrueInterest ::
  "handler_context \<Rightarrow> db \<Rightarrow> event \<Rightarrow> nat \<Rightarrow> nat \<Rightarrow> error + db" where
  "MetaMorpho_AccrueInterest ctx s ev newTotalAssets feeShares =
     (if feeShares = 0 then Inr s
      else case db_find (vault s) (vault_pk ev) of
        None \<Rightarrow> Inr s
      | Some vaultRecord \<Rightarrow>
          (case convertToAssets ctx (chain_id ev) (log_address ev) feeShares of
             None \<Rightarrow> Inl ContractCallFailed
           | Some feeAssets \<Rightarrow>
               insert_transaction ctx s ev
                 \<lparr>blockNumber = int (block_number ev),
                  timestamp = int (block_timestamp ev),
                  type_tag = MetaMorphoFee,
                  user = feeRecipient vaultRecord,
                  sender = zeroAddress,
                  receiver = None,
                  vaultAddress = log_address ev,
                  tx_marketId = None,
                  vaultShares = int feeShares,
                  vaultAssets = int feeAssets\<rparr>))"

definition MetaMorpho_ReallocateSupply ::
  "handler_context \<Rightarrow> db \<Rightarrow> event \<Rightarrow> address \<Rightarrow> hex \<Rightarrow> nat \<Rightarrow> nat \<Rightarrow> error + db" where
  "MetaMorpho_ReallocateSupply ctx s ev caller mid suppliedAssets suppliedShares =
     insert_transaction ctx s ev
       \<lparr>blockNumber = int (block_number ev),
        timestamp = int (block_timestamp ev),
        type_tag = VaultReallocateSupply,
        user = caller,
        sender = caller,
        receiver = None,
        vaultAddress = log_address ev,
        tx_marketId = Some mid,
        vaultShares = int suppliedShares,
        vaultAssets = int suppliedAssets\<rparr>"

definition MetaMorpho_ReallocateWithdraw ::
  "handler_context \<Rightarrow> db \<Rightarrow> event \<Rightarrow> address \<Rightarrow> hex \<Rightarrow> nat \<Rightarrow> nat \<Rightarrow> error + db" where
  "MetaMorpho_ReallocateWithdraw ctx s ev caller mid withdrawnAssets withdrawnShares =
     insert_transaction ctx s ev
       \<lparr>blockNumber = int (block_number ev),
        timestamp = int (block_timestamp ev),
        type_tag = VaultReallocateWithdraw,
        user = caller,
        sender = caller,
        receiver = None,
        vaultAddress = log_address ev,
        tx_marketId = Some mid,
        vaultShares = int withdrawnShares,
        vaultAssets = int withdrawnAssets\<rparr>"

text \<open>
  \<^verbatim>\<open>Transfer\<close> hands two writes to \<^verbatim>\<open>Promise.all\<close>. Both are started before either is
  awaited, and each reads its row before the other has written; a rejected write rejects
  the handler. In the mint and in the burn branch the two write different tables, and
  each reads what it would read alone. In the transfer branch both write the balance
  table: the update of the row of the sender and the upsert of the row of the recipient
  both read the table as it was, and then write one after the other in the order in
  which they were started. When the sender is the recipient, the second write is
  computed from the row as it was before the first, and replaces it.
\<close>

definition credit :: "db \<Rightarrow> event \<Rightarrow> address \<Rightarrow> nat \<Rightarrow> db" where
  "credit s ev to_arg v =
     s\<lparr>vaultBalance :=
         db_upsert (vaultBalance s) (balance_pk ev to_arg)
           \<lparr>shares = int v\<rparr> (\<lambda>row. row\<lparr>shares := shares row + int v\<rparr>)\<rparr>"

definition debit :: "db \<Rightarrow> event \<Rightarrow> address \<Rightarrow> nat \<Rightarrow> error + db" where
  "debit s ev from_arg v =
     and_then
       (db_update_fn T_vaultBalance (vaultBalance s) (balance_pk ev from_arg)
          (\<lambda>row. row\<lparr>shares := shares row - int v\<rparr>))
       (\<lambda>t. Inr (s\<lparr>vaultBalance := t\<rparr>))"

definition move_shares :: "db \<Rightarrow> event \<Rightarrow> address \<Rightarrow> address \<Rightarrow> nat \<Rightarrow> error + db" where
  "move_shares s ev from_arg to_arg v =
     (let t = vaultBalance s;
          seen = db_find t (balance_pk ev to_arg)
      in and_then
           (db_update_fn T_vaultBalance t (balance_pk ev from_arg)
              (\<lambda>row. row\<lparr>shares := shares row - int v\<rparr>))
           (\<lambda>t1. Inr (s\<lparr>vaultBalance :=
                          upsert_write t1 (balance_pk ev to_arg) \<lparr>shares = int v\<rparr>
                            (\<lambda>row. row\<lparr>shares := shares row + int v\<rparr>) seen\<rparr>)))"

definition MetaMorpho_Transfer ::
  "handler_context \<Rightarrow> db \<Rightarrow> event \<Rightarrow> address \<Rightarrow> address \<Rightarrow> nat \<Rightarrow> error + db" where
  "MetaMorpho_Transfer ctx s ev from_arg to_arg v =
     (if v = 0 then Inr s
      else if from_arg = zeroAddress then
        and_then (update_vault_fn s ev (\<lambda>row. row\<lparr>totalSupply := totalSupply row + int v\<rparr>))
          (\<lambda>s1. Inr (credit s1 ev to_arg v))
      else if to_arg = zeroAddress then
        and_then (update_vault_fn s ev (\<lambda>row. row\<lparr>totalSupply := totalSupply row - int v\<rparr>))
          (\<lambda>s1. debit s1 ev from_arg v)
      else
        and_then (move_shares s ev from_arg to_arg v)
          (\<lambda>s2. let isFee = (case db_find (vault s2) (vault_pk ev) of
                                None \<Rightarrow> False
                              | Some vaultRecord \<Rightarrow> to_arg = feeRecipient vaultRecord)
                 in case convertToAssets ctx (chain_id ev) (log_address ev) v of
                      None \<Rightarrow> Inl ContractCallFailed
                    | Some assets \<Rightarrow>
                        insert_transaction ctx s2 ev
                          \<lparr>blockNumber = int (block_number ev),
                           timestamp = int (block_timestamp ev),
                           type_tag = (if isFee then MetaMorphoFee else MetaMorphoTransfer),
                           user = from_arg,
                           sender = from_arg,
                           receiver = Some to_arg,
                           vaultAddress = log_address ev,
                           tx_marketId = None,
                           vaultShares = int v,
                           vaultAssets = int assets\<rparr>))"

definition MetaMorpho_UpdateLastTotalAssets :: "handler_context \<Rightarrow> db \<Rightarrow> event \<Rightarrow> nat \<Rightarrow> error + db" where
  "MetaMorpho_UpdateLastTotalAssets ctx s ev updatedTotalAssets =
     update_vault ctx s ev (\<lambda>row. row\<lparr>lastTotalAssets := int updatedTotalAssets\<rparr>)"

definition MetaMorpho_UpdateLostAssets :: "handler_context \<Rightarrow> db \<Rightarrow> event \<Rightarrow> nat \<Rightarrow> error + db" where
  "MetaMorpho_UpdateLostAssets ctx s ev newLostAssets =
     update_vault ctx s ev (\<lambda>row. row\<lparr>lostAssets := int newLostAssets\<rparr>)"

subsection \<open>Dispatch\<close>

text \<open>\<^verbatim>\<open>ponder.on("MetaMorpho:<name>", handler)\<close>: the handler registered for the event.\<close>

fun dispatch :: "handler_context \<Rightarrow> db \<Rightarrow> event \<Rightarrow> event_args \<Rightarrow> error + db" where
  "dispatch ctx s ev (OwnershipTransferStarted a) = MetaMorpho_OwnershipTransferStarted ctx s ev a"
| "dispatch ctx s ev (OwnershipTransferred a) = MetaMorpho_OwnershipTransferred ctx s ev a"
| "dispatch ctx s ev (SubmitCap m c) = MetaMorpho_SubmitCap ctx s ev m c"
| "dispatch ctx s ev (SubmitGuardian a) = MetaMorpho_SubmitGuardian ctx s ev a"
| "dispatch ctx s ev (SubmitMarketRemoval m) = MetaMorpho_SubmitMarketRemoval ctx s ev m"
| "dispatch ctx s ev (SubmitTimelock n) = MetaMorpho_SubmitTimelock ctx s ev n"
| "dispatch ctx s ev (RevokePendingCap m) = MetaMorpho_RevokePendingCap ctx s ev m"
| "dispatch ctx s ev RevokePendingGuardian = MetaMorpho_RevokePendingGuardian ctx s ev"
| "dispatch ctx s ev (RevokePendingMarketRemoval m) =
     MetaMorpho_RevokePendingMarketRemoval ctx s ev m"
| "dispatch ctx s ev RevokePendingTimelock = MetaMorpho_RevokePendingTimelock ctx s ev"
| "dispatch ctx s ev (SetCap m c) = MetaMorpho_SetCap ctx s ev m c"
| "dispatch ctx s ev (SetCurator a) = MetaMorpho_SetCurator ctx s ev a"
| "dispatch ctx s ev (SetFee n) = MetaMorpho_SetFee ctx s ev n"
| "dispatch ctx s ev (SetFeeRecipient a) = MetaMorpho_SetFeeRecipient ctx s ev a"
| "dispatch ctx s ev (SetGuardian a) = MetaMorpho_SetGuardian ctx s ev a"
| "dispatch ctx s ev (SetIsAllocator a b) = MetaMorpho_SetIsAllocator s ev a b"
| "dispatch ctx s ev (SetName n) = MetaMorpho_SetName ctx s ev n"
| "dispatch ctx s ev (SetSkimRecipient a) = MetaMorpho_SetSkimRecipient ctx s ev a"
| "dispatch ctx s ev (SetSymbol n) = MetaMorpho_SetSymbol ctx s ev n"
| "dispatch ctx s ev (SetTimelock n) = MetaMorpho_SetTimelock ctx s ev n"
| "dispatch ctx s ev (SetSupplyQueue q) = MetaMorpho_SetSupplyQueue s ev q"
| "dispatch ctx s ev (SetWithdrawQueue q) = MetaMorpho_SetWithdrawQueue s ev q"
| "dispatch ctx s ev (Deposit a b x y) = MetaMorpho_Deposit ctx s ev a b x y"
| "dispatch ctx s ev (Withdraw a b c x y) = MetaMorpho_Withdraw ctx s ev a b c x y"
| "dispatch ctx s ev (AccrueInterest x y) = MetaMorpho_AccrueInterest ctx s ev x y"
| "dispatch ctx s ev (ReallocateSupply a m x y) = MetaMorpho_ReallocateSupply ctx s ev a m x y"
| "dispatch ctx s ev (ReallocateWithdraw a m x y) = MetaMorpho_ReallocateWithdraw ctx s ev a m x y"
| "dispatch ctx s ev (Transfer a b x) = MetaMorpho_Transfer ctx s ev a b x"
| "dispatch ctx s ev (UpdateLastTotalAssets x) = MetaMorpho_UpdateLastTotalAssets ctx s ev x"
| "dispatch ctx s ev (UpdateLostAssets x) = MetaMorpho_UpdateLostAssets ctx s ev x"

definition handle :: "handler_context \<Rightarrow> db \<Rightarrow> event \<Rightarrow> error + db" where
  "handle ctx s ev = dispatch ctx s ev (args ev)"

text \<open>
  A run over the events of a chain in log order. The first handler that throws ends the
  run with its error.
\<close>

fun run :: "handler_context \<Rightarrow> db \<Rightarrow> event list \<Rightarrow> error + db" where
  "run ctx s [] = Inr s"
| "run ctx s (ev # evs) = and_then (handle ctx s ev) (\<lambda>s'. run ctx s' evs)"

subsection \<open>The share ledger of a vault\<close>

text \<open>The sum of \<^verbatim>\<open>shares\<close> over the balance rows of the vault at an address of a chain.\<close>

definition balance_sum :: "(balance_key, balance_row) table \<Rightarrow> nat \<Rightarrow> address \<Rightarrow> int" where
  "balance_sum t c a =
     sum_list (map (\<lambda>p. shares (snd p))
       (filter (\<lambda>p. fst (fst p) = c \<and> fst (snd (fst p)) = a) t))"

text \<open>The shares of a holder in the vault of an event: zero without a balance row.\<close>

definition balance_of :: "db \<Rightarrow> event \<Rightarrow> address \<Rightarrow> int" where
  "balance_of s ev u =
     (case db_find (vaultBalance s) (balance_pk ev u) of None \<Rightarrow> 0 | Some row \<Rightarrow> shares row)"

text \<open>The total supply of the vault of an event, when the vault has a row.\<close>

definition total_supply :: "db \<Rightarrow> event \<Rightarrow> int option" where
  "total_supply s ev = map_option totalSupply (db_find (vault s) (vault_pk ev))"

text \<open>The vault row, when there is one, carries the sum of the balances as its total supply.\<close>

definition supply_invariant :: "db \<Rightarrow> nat \<Rightarrow> address \<Rightarrow> bool" where
  "supply_invariant s c a =
     (case db_find (vault s) (c, a) of
        None \<Rightarrow> True
      | Some row \<Rightarrow> totalSupply row = balance_sum (vaultBalance s) c a)"

subsection \<open>What the handlers record and which rows they require\<close>

text \<open>The audit rows of a store: key, type tag, share amount and asset amount of each.\<close>

definition recorded :: "db \<Rightarrow> (transaction_key \<times> transaction_type \<times> int \<times> int) list" where
  "recorded s =
     map (\<lambda>p. (fst p, type_tag (snd p), vaultShares (snd p), vaultAssets (snd p)))
       (transaction s)"

text \<open>
  The events whose handler updates the vault row with an object of columns,
  \<^verbatim>\<open>context.db.update(vault, ...).set({...})\<close>, outside a \<^verbatim>\<open>try\<close>.
\<close>

fun sets_vault_row :: "event_args \<Rightarrow> bool" where
  "sets_vault_row (OwnershipTransferStarted _) = True"
| "sets_vault_row (SubmitGuardian _) = True"
| "sets_vault_row (SubmitTimelock _) = True"
| "sets_vault_row RevokePendingGuardian = True"
| "sets_vault_row RevokePendingTimelock = True"
| "sets_vault_row (SetCurator _) = True"
| "sets_vault_row (SetFee _) = True"
| "sets_vault_row (SetFeeRecipient _) = True"
| "sets_vault_row (SetGuardian _) = True"
| "sets_vault_row (SetSkimRecipient _) = True"
| "sets_vault_row (UpdateLastTotalAssets _) = True"
| "sets_vault_row (UpdateLostAssets _) = True"
| "sets_vault_row _ = False"

text \<open>
  The events whose handler updates the vault row with a function,
  \<^verbatim>\<open>context.db.update(vault, ...).set((row) => ...)\<close>: a \<^verbatim>\<open>Transfer\<close> does so in its mint
  and in its burn branch.
\<close>

fun updates_vault_row :: "event_args \<Rightarrow> bool" where
  "updates_vault_row (SetIsAllocator _ _) = True"
| "updates_vault_row (SetSupplyQueue _) = True"
| "updates_vault_row (SetWithdrawQueue _) = True"
| "updates_vault_row (Transfer f t v) = (v \<noteq> 0 \<and> (f = zeroAddress \<or> t = zeroAddress))"
| "updates_vault_row _ = False"

text \<open>
  The events whose handler updates the ConfigItem row of a market with an object of
  columns, \<^verbatim>\<open>context.db.update(vaultConfigItem, ...).set({...})\<close>, with the market.
\<close>

fun sets_config_row :: "event_args \<Rightarrow> hex option" where
  "sets_config_row (SubmitMarketRemoval m) = Some m"
| "sets_config_row (SetCap m _) = Some m"
| "sets_config_row _ = None"

text \<open>
  The events whose handler updates a balance row,
  \<^verbatim>\<open>context.db.update(vaultBalance, ...).set((row) => ...)\<close>, with the holder of the row: a
  \<^verbatim>\<open>Transfer\<close> in its burn and in its transfer branch.
\<close>

fun updates_balance_row :: "event_args \<Rightarrow> address option" where
  "updates_balance_row (Transfer f t v) =
     (if v \<noteq> 0 \<and> f \<noteq> zeroAddress then Some f else None)"
| "updates_balance_row _ = None"

text \<open>A transfer of a value that is not zero from a holder to the same holder.\<close>

fun self_transfer :: "event_args \<Rightarrow> bool" where
  "self_transfer (Transfer f t v) = (v \<noteq> 0 \<and> f \<noteq> zeroAddress \<and> f = t)"
| "self_transfer _ = False"

subsection \<open>An example store\<close>

text \<open>
  A store with one vault on chain 1, whose fee recipient is the treasury and whose
  timelock is one day, a context of either store whose client converts every share to
  two assets, and events of that vault in one transaction.
\<close>

definition ex_vault :: address where
  "ex_vault = ''0x00000000000000000000000000000000000000f1''"

definition ex_alice :: address where
  "ex_alice = ''0x00000000000000000000000000000000000000a1''"

definition ex_bob :: address where
  "ex_bob = ''0x00000000000000000000000000000000000000b2''"

definition ex_treasury :: address where
  "ex_treasury = ''0x00000000000000000000000000000000000000c3''"

definition ex_market :: hex where
  "ex_market = ''0x3a85e619751152991742810df6ec69ce473daef99e28a64ab2340d7b7ccfee49''"

definition ex_vault_row :: vault_row where
  "ex_vault_row =
     \<lparr>asset = ''0x00000000000000000000000000000000000000e5'',
      decimalsUnderlying = 6, decimalsOffset = 12,
      owner = ex_alice, pendingOwner = ex_bob, curator = zeroAddress,
      guardian = zeroAddress, pendingGuardian = zeroAddress, pendingGuardianValidAt = 0,
      timelock = 86400, pendingTimelock = 3600, pendingTimelockValidAt = 90000,
      fee = 0, feeRecipient = ex_treasury, skimRecipient = zeroAddress,
      name = ''Vault'', symbol = ''VLT'',
      totalSupply = 0, lastTotalAssets = 0, lostAssets = 0,
      supplyQueueLength = 0, withdrawQueueLength = 0, allocators = []\<rparr>"

definition ex_db :: db where
  "ex_db =
     \<lparr>vault = [((1, ex_vault), ex_vault_row)], vaultBalance = [], vaultConfigItem = [],
      vaultSupplyQueueItem = [], vaultWithdrawQueueItem = [], transaction = []\<rparr>"

definition empty_db :: db where
  "empty_db =
     \<lparr>vault = [], vaultBalance = [], vaultConfigItem = [],
      vaultSupplyQueueItem = [], vaultWithdrawQueueItem = [], transaction = []\<rparr>"

definition ex_ctx :: "store_kind \<Rightarrow> handler_context" where
  "ex_ctx st = \<lparr>convertToAssets = (\<lambda>c a n. Some (2 * n)), cap_default = 0, store = st\<rparr>"

definition ex_event :: "nat \<Rightarrow> event_args \<Rightarrow> event" where
  "ex_event i x =
     \<lparr>chain_id = 1, log_address = ex_vault, log_logIndex = i, block_number = 7,
      block_timestamp = 1000, transaction_hash = ''0xabc'', args = x\<rparr>"

definition ex_transfers :: "event list" where
  "ex_transfers =
     [ex_event 0 (Transfer zeroAddress ex_alice 100),
      ex_event 1 (Transfer ex_alice ex_bob 30),
      ex_event 2 (Transfer ex_alice zeroAddress 20)]"

definition ex_config_row :: config_row where
  "ex_config_row =
     \<lparr>cap = 50, pendingCap = 100, pendingCapValidAt = 87400, enabled = True,
      removableAt = 5000\<rparr>"

text \<open>The example store with a ConfigItem row for the example market.\<close>

definition ex_db_with_market :: db where
  "ex_db_with_market = ex_db\<lparr>vaultConfigItem := [((1, ex_vault, ex_market), ex_config_row)]\<rparr>"

text \<open>The example store with a supply queue of five markets.\<close>

definition ex_db_with_queue :: db where
  "ex_db_with_queue =
     ex_db\<lparr>vault := [((1, ex_vault), ex_vault_row\<lparr>supplyQueueLength := 5\<rparr>)],
           vaultSupplyQueueItem :=
             [((1, ex_vault, 0), \<lparr>marketId = Some ''0xa0''\<rparr>),
              ((1, ex_vault, 1), \<lparr>marketId = Some ''0xa1''\<rparr>),
              ((1, ex_vault, 2), \<lparr>marketId = Some ''0xa2''\<rparr>),
              ((1, ex_vault, 3), \<lparr>marketId = Some ''0xa3''\<rparr>),
              ((1, ex_vault, 4), \<lparr>marketId = Some ''0xa4''\<rparr>)]\<rparr>"

definition ex_SetSupplyQueue :: event where
  "ex_SetSupplyQueue = ex_event 0 (SetSupplyQueue [''0xb0'', ''0xb1''])"

definition ex_SubmitCap :: event where
  "ex_SubmitCap = ex_event 0 (SubmitCap ex_market 100)"

text \<open>The example store in which one holder has all of a supply of 1000 shares.\<close>

definition ex_db_funded :: db where
  "ex_db_funded =
     ex_db\<lparr>vault := [((1, ex_vault), ex_vault_row\<lparr>totalSupply := 1000\<rparr>)],
           vaultBalance := [((1, ex_vault, ex_alice), \<lparr>shares = 1000\<rparr>)]\<rparr>"

text \<open>The example store after mints of \<open>n\<close> shares in all to one holder.\<close>

definition ex_db_minted :: "int \<Rightarrow> db" where
  "ex_db_minted n =
     ex_db\<lparr>vault := [((1, ex_vault), ex_vault_row\<lparr>totalSupply := n\<rparr>)],
           vaultBalance := [((1, ex_vault, ex_alice), \<lparr>shares = n\<rparr>)]\<rparr>"

definition ex_mint :: event where
  "ex_mint = ex_event 0 (Transfer zeroAddress ex_alice 100)"

definition ex_transfer :: event where
  "ex_transfer = ex_event 0 (Transfer ex_alice ex_bob 500)"

text \<open>
  A transfer of 500 shares from a holder to the same holder, and the store in which it
  leaves the example store with the one holder of 1000 shares.
\<close>

definition ex_self_transfer :: event where
  "ex_self_transfer = ex_event 0 (Transfer ex_alice ex_alice 500)"

definition ex_db_after_self_transfer :: db where
  "ex_db_after_self_transfer =
     ex_db_funded
       \<lparr>vaultBalance := [((1, ex_vault, ex_alice), \<lparr>shares = 1500\<rparr>)],
        transaction :=
          [((1, ''0xabc'', 0),
            \<lparr>blockNumber = 7, timestamp = 1000, type_tag = MetaMorphoTransfer,
             user = ex_alice, sender = ex_alice, receiver = Some ex_alice,
             vaultAddress = ex_vault, tx_marketId = None, vaultShares = 500,
             vaultAssets = 1000\<rparr>)]\<rparr>"

text \<open>The example store after a transfer of 500 shares from the one holder to another.\<close>

definition ex_db_after_transfer :: db where
  "ex_db_after_transfer =
     ex_db_funded
       \<lparr>vaultBalance :=
          [((1, ex_vault, ex_alice), \<lparr>shares = 500\<rparr>), ((1, ex_vault, ex_bob), \<lparr>shares = 500\<rparr>)],
        transaction :=
          [((1, ''0xabc'', 0),
            \<lparr>blockNumber = 7, timestamp = 1000, type_tag = MetaMorphoTransfer,
             user = ex_alice, sender = ex_alice, receiver = Some ex_bob,
             vaultAddress = ex_vault, tx_marketId = None, vaultShares = 500,
             vaultAssets = 1000\<rparr>)]\<rparr>"

section \<open>Properties of the store interface\<close>

lemma map_of_put_row: "map_of (put_row k r t) = (map_of t)(k \<mapsto> r)"
  by (induction t) (auto simp: fun_eq_iff)

lemma db_find_put_row: "db_find (put_row k r t) k' = (if k' = k then Some r else db_find t k')"
  by (simp add: db_find_def map_of_put_row)

lemma db_find_append_None:
  "db_find t k = None \<Longrightarrow> db_find (t @ [(k, r)]) k' = (if k' = k then Some r else db_find t k')"
  by (induction t) (auto simp: db_find_def split: if_splits)

lemma db_find_append:
  "db_find (t @ [(k, r)]) k' =
     (case db_find t k' of Some x \<Rightarrow> Some x | None \<Rightarrow> if k' = k then Some r else None)"
  by (induction t) (auto simp: db_find_def)

lemma db_find_upsert:
  "db_find (db_upsert t k r f) k' =
     (if k' = k then Some (case db_find t k of None \<Rightarrow> r | Some old \<Rightarrow> f old) else db_find t k')"
  by (auto simp: db_upsert_def db_find_put_row db_find_append_None split: option.splits)

lemma db_update_fn_Inr:
  "db_update_fn n t k f = Inr t' \<longleftrightarrow> (\<exists>old. db_find t k = Some old \<and> t' = put_row k (f old) t)"
  by (auto simp: db_update_fn_def split: option.splits)

lemma db_update_set_found:
  "db_find t k = Some old \<Longrightarrow> db_update_set st n t k f = Inr (put_row k (f old) t)"
  by (simp add: db_update_set_def)

lemma db_update_set_missing:
  "db_find t k = None \<Longrightarrow>
   db_update_set st n t k f = (case st of Historical \<Rightarrow> Inl (RecordNotFound n) | Realtime \<Rightarrow> Inr t)"
  by (simp add: db_update_set_def)

lemma and_then_Inr: "and_then m f = Inr y \<longleftrightarrow> (\<exists>x. m = Inr x \<and> f x = Inr y)"
  by (cases m) (simp_all add: and_then_def)

lemma update_vault_found:
  "db_find (vault s) (vault_pk ev) = Some row \<Longrightarrow>
   update_vault ctx s ev f = Inr (s\<lparr>vault := put_row (vault_pk ev) (f row) (vault s)\<rparr>)"
  by (simp add: update_vault_def db_update_set_found and_then_def)

lemma update_vault_missing:
  "db_find (vault s) (vault_pk ev) = None \<Longrightarrow>
   update_vault ctx s ev f =
     (case store ctx of Historical \<Rightarrow> Inl (RecordNotFound T_vault) | Realtime \<Rightarrow> Inr s)"
  by (simp add: update_vault_def db_update_set_missing and_then_def split: store_kind.splits)

lemma update_vault_Inr:
  "update_vault ctx s ev f = Inr s' \<longleftrightarrow>
     (case db_find (vault s) (vault_pk ev) of
        None \<Rightarrow> store ctx = Realtime \<and> s' = s
      | Some row \<Rightarrow> s' = s\<lparr>vault := put_row (vault_pk ev) (f row) (vault s)\<rparr>)"
  by (auto simp: update_vault_found update_vault_missing split: option.splits store_kind.splits)

lemma update_vault_fn_found:
  "db_find (vault s) (vault_pk ev) = Some row \<Longrightarrow>
   update_vault_fn s ev f = Inr (s\<lparr>vault := put_row (vault_pk ev) (f row) (vault s)\<rparr>)"
  by (simp add: update_vault_fn_def db_update_fn_def and_then_def)

lemma update_vault_fn_missing:
  "db_find (vault s) (vault_pk ev) = None \<Longrightarrow>
   update_vault_fn s ev f = Inl (RecordNotFound T_vault)"
  by (simp add: update_vault_fn_def db_update_fn_def and_then_def)

lemma update_vault_fn_Inr:
  "update_vault_fn s ev f = Inr s' \<longleftrightarrow>
     (\<exists>row. db_find (vault s) (vault_pk ev) = Some row \<and>
            s' = s\<lparr>vault := put_row (vault_pk ev) (f row) (vault s)\<rparr>)"
  by (auto simp: update_vault_fn_def and_then_Inr db_update_fn_Inr)

lemma update_vault_if_exists_found:
  "db_find (vault s) (vault_pk ev) = Some row \<Longrightarrow>
   update_vault_if_exists ctx s ev f =
     Inr (s\<lparr>vault := put_row (vault_pk ev) (f row) (vault s)\<rparr>)"
  by (simp add: update_vault_if_exists_def update_vault_found)

lemma update_vault_if_exists_missing:
  "db_find (vault s) (vault_pk ev) = None \<Longrightarrow> update_vault_if_exists ctx s ev f = Inr s"
  by (simp add: update_vault_if_exists_def update_vault_missing split: store_kind.splits)

lemma update_vault_if_exists_Inr:
  "update_vault_if_exists ctx s ev f = Inr s' \<longleftrightarrow>
     (case db_find (vault s) (vault_pk ev) of
        None \<Rightarrow> s' = s
      | Some row \<Rightarrow> s' = s\<lparr>vault := put_row (vault_pk ev) (f row) (vault s)\<rparr>)"
  by (auto simp: update_vault_if_exists_found update_vault_if_exists_missing
      split: option.splits)

lemma update_config_found:
  "db_find (vaultConfigItem s) (config_pk ev m) = Some row \<Longrightarrow>
   update_config ctx s ev m f =
     Inr (s\<lparr>vaultConfigItem :=
            put_row (config_pk ev m) (f row) (vaultConfigItem s)\<rparr>)"
  by (simp add: update_config_def db_update_set_found and_then_def)

lemma update_config_missing:
  "db_find (vaultConfigItem s) (config_pk ev m) = None \<Longrightarrow>
   update_config ctx s ev m f =
     (case store ctx of
        Historical \<Rightarrow> Inl (RecordNotFound T_vaultConfigItem)
      | Realtime \<Rightarrow> Inr s)"
  by (simp add: update_config_def db_update_set_missing and_then_def split: store_kind.splits)

lemma update_config_Inr:
  "update_config ctx s ev m f = Inr s' \<longleftrightarrow>
     (case db_find (vaultConfigItem s) (config_pk ev m) of
        None \<Rightarrow> store ctx = Realtime \<and> s' = s
      | Some row \<Rightarrow>
          s' = s\<lparr>vaultConfigItem :=
                   put_row (config_pk ev m) (f row) (vaultConfigItem s)\<rparr>)"
  by (auto simp: update_config_found update_config_missing
      split: option.splits store_kind.splits)

lemma insert_transaction_free:
  "db_find (transaction s) (transaction_pk ev) = None \<Longrightarrow>
   insert_transaction ctx s ev row =
     Inr (s\<lparr>transaction := transaction s @ [(transaction_pk ev, row)]\<rparr>)"
  by (simp add: insert_transaction_def db_insert_def and_then_def)

lemma insert_transaction_taken:
  "db_find (transaction s) (transaction_pk ev) = Some old \<Longrightarrow>
   insert_transaction ctx s ev row =
     (case store ctx of
        Historical \<Rightarrow> Inr (s\<lparr>transaction := put_row (transaction_pk ev) row (transaction s)\<rparr>)
      | Realtime \<Rightarrow> Inl (UniqueConstraint T_transaction))"
  by (simp add: insert_transaction_def db_insert_def and_then_def split: store_kind.splits)

lemma insert_transaction_Inr:
  "insert_transaction ctx s ev row = Inr s' \<Longrightarrow>
   vault s' = vault s \<and> vaultBalance s' = vaultBalance s \<and>
   db_find (transaction s') (transaction_pk ev) = Some row"
  by (cases "db_find (transaction s) (transaction_pk ev)")
    (auto simp: insert_transaction_free insert_transaction_taken db_find_append
      db_find_put_row split: store_kind.splits)

lemmas ex_defs =
  ex_vault_def ex_alice_def ex_bob_def ex_treasury_def ex_market_def ex_vault_row_def
  ex_db_def empty_db_def ex_ctx_def ex_event_def zeroAddress_def ex_config_row_def
  ex_db_with_market_def ex_db_with_queue_def ex_SetSupplyQueue_def ex_SubmitCap_def
  ex_db_funded_def ex_db_minted_def ex_mint_def ex_transfer_def ex_self_transfer_def
  ex_db_after_self_transfer_def ex_db_after_transfer_def

lemmas store_defs =
  db_find_def db_insert_def db_upsert_def upsert_write_def db_update_fn_def db_update_set_def
  and_then_def vault_pk_def transaction_pk_def config_pk_def balance_pk_def queue_pk_def
  update_vault_def update_vault_fn_def update_vault_if_exists_def update_config_def
  upsert_config_def insert_transaction_def timelock_or_zero_def

section \<open>The share ledger\<close>

lemma balance_sum_put_row:
  "db_find t k = Some old \<Longrightarrow>
   balance_sum (put_row k r t) c a =
     balance_sum t c a + (if fst k = c \<and> fst (snd k) = a then shares r - shares old else 0)"
  by (induction t) (auto simp: balance_sum_def db_find_def)

lemma balance_sum_append:
  "balance_sum (t @ [(k, r)]) c a =
     balance_sum t c a + (if fst k = c \<and> fst (snd k) = a then shares r else 0)"
  by (simp add: balance_sum_def)

lemma balance_sum_upsert:
  "balance_sum (db_upsert t (c', a', u) \<lparr>shares = v\<rparr> (\<lambda>row. row\<lparr>shares := shares row + v\<rparr>)) c a =
     balance_sum t c a + (if c' = c \<and> a' = a then v else 0)"
  by (auto simp: db_upsert_def balance_sum_put_row balance_sum_append split: option.splits)

lemma supply_invariant_cong:
  "vault s' = vault s \<Longrightarrow> vaultBalance s' = vaultBalance s \<Longrightarrow>
   supply_invariant s' c a = supply_invariant s c a"
  by (simp add: supply_invariant_def split: option.splits)

lemma supply_invariant_put_vault:
  assumes "db_find (vault s) k = Some row" and "totalSupply row' = totalSupply row"
    and "supply_invariant s c a"
  shows "supply_invariant (s\<lparr>vault := put_row k row' (vault s)\<rparr>) c a"
  using assms
  by (auto simp: supply_invariant_def db_find_put_row split: option.splits)

lemma supply_invariant_update_vault:
  assumes "update_vault ctx s ev f = Inr s'" and "\<And>row. totalSupply (f row) = totalSupply row"
    and "supply_invariant s c a"
  shows "supply_invariant s' c a"
  using assms
  by (auto simp: update_vault_Inr supply_invariant_put_vault split: option.splits)

lemma supply_invariant_update_vault_fn:
  assumes "update_vault_fn s ev f = Inr s'" and "\<And>row. totalSupply (f row) = totalSupply row"
    and "supply_invariant s c a"
  shows "supply_invariant s' c a"
  using assms
  by (auto simp: update_vault_fn_Inr supply_invariant_put_vault)

lemma supply_invariant_update_vault_if_exists:
  assumes "update_vault_if_exists ctx s ev f = Inr s'"
    and "\<And>row. totalSupply (f row) = totalSupply row"
    and "supply_invariant s c a"
  shows "supply_invariant s' c a"
  using assms
  by (auto simp: update_vault_if_exists_Inr supply_invariant_put_vault split: option.splits)

lemma supply_invariant_insert_transaction:
  assumes "insert_transaction ctx s ev row = Inr s'" and "supply_invariant s c a"
  shows "supply_invariant s' c a"
  using insert_transaction_Inr [OF assms(1)] assms(2) supply_invariant_cong [of s' s c a]
  by simp

lemma supply_invariant_update_config:
  "update_config ctx s ev m f = Inr s' \<Longrightarrow> supply_invariant s c a \<Longrightarrow>
   supply_invariant s' c a"
  by (auto simp: update_config_Inr supply_invariant_def split: option.splits)

lemma supply_invariant_upsert_config:
  "supply_invariant s c a \<Longrightarrow> supply_invariant (upsert_config s ev m row f) c a"
  by (simp add: upsert_config_def supply_invariant_def split: option.splits)

lemma credit_simps:
  "vault (credit s ev u v) = vault s"
  "balance_sum (vaultBalance (credit s ev u v)) c a =
     balance_sum (vaultBalance s) c a + (if chain_id ev = c \<and> log_address ev = a then int v else 0)"
  by (simp_all add: credit_def balance_pk_def balance_sum_upsert)

lemma debit_Inr_iff:
  "debit s ev u v = Inr s' \<longleftrightarrow>
     (\<exists>old. db_find (vaultBalance s) (balance_pk ev u) = Some old \<and>
        s' = s\<lparr>vaultBalance :=
               put_row (balance_pk ev u) (old\<lparr>shares := shares old - int v\<rparr>) (vaultBalance s)\<rparr>)"
  by (auto simp: debit_def and_then_Inr db_update_fn_Inr)

lemma debit_found:
  "db_find (vaultBalance s) (balance_pk ev u) = Some old \<Longrightarrow>
   debit s ev u v =
     Inr (s\<lparr>vaultBalance :=
            put_row (balance_pk ev u) (old\<lparr>shares := shares old - int v\<rparr>) (vaultBalance s)\<rparr>)"
  by (simp add: debit_def db_update_fn_def and_then_def)

lemma debit_Inr:
  assumes "debit s ev u v = Inr s'"
  shows "vault s' = vault s"
    and "balance_sum (vaultBalance s') c a =
     balance_sum (vaultBalance s) c a - (if chain_id ev = c \<and> log_address ev = a then int v else 0)"
  using assms
  by (auto simp: debit_Inr_iff balance_pk_def balance_sum_put_row)

text \<open>
  The two writes of the transfer branch: the row of the sender is written first, from
  what was read of it, and the row of the recipient second, from what was read of it in
  the table as it was.
\<close>

lemma move_shares_Inr_iff:
  "move_shares s ev f t v = Inr s' \<longleftrightarrow>
     (\<exists>old. db_find (vaultBalance s) (balance_pk ev f) = Some old \<and>
        s' = s\<lparr>vaultBalance :=
               upsert_write
                 (put_row (balance_pk ev f) (old\<lparr>shares := shares old - int v\<rparr>) (vaultBalance s))
                 (balance_pk ev t) \<lparr>shares = int v\<rparr> (\<lambda>row. row\<lparr>shares := shares row + int v\<rparr>)
                 (db_find (vaultBalance s) (balance_pk ev t))\<rparr>)"
  by (auto simp: move_shares_def Let_def and_then_Inr db_update_fn_Inr)

lemma move_shares_missing:
  "db_find (vaultBalance s) (balance_pk ev f) = None \<Longrightarrow>
   move_shares s ev f t v = Inl (RecordNotFound T_vaultBalance)"
  by (simp add: move_shares_def Let_def db_update_fn_def and_then_def)

lemma balance_pk_eq [simp]: "balance_pk ev u = balance_pk ev u' \<longleftrightarrow> u = u'"
  by (simp add: balance_pk_def)

lemma move_shares_other_holder:
  assumes "f \<noteq> t"
  shows "move_shares s ev f t v = and_then (debit s ev f v) (\<lambda>s1. Inr (credit s1 ev t v))"
  using assms
  by (cases "db_find (vaultBalance s) (balance_pk ev f)")
    (simp_all add: move_shares_def Let_def debit_def credit_def db_update_fn_def and_then_def
      db_upsert_def upsert_write_def db_find_put_row split: option.splits)

lemma move_shares_same_holder:
  "move_shares s ev f f v = Inr s' \<longleftrightarrow>
     (\<exists>old. db_find (vaultBalance s) (balance_pk ev f) = Some old \<and>
        s' = s\<lparr>vaultBalance :=
               put_row (balance_pk ev f) (old\<lparr>shares := shares old + int v\<rparr>)
                 (put_row (balance_pk ev f) (old\<lparr>shares := shares old - int v\<rparr>)
                    (vaultBalance s))\<rparr>)"
  by (auto simp: move_shares_Inr_iff upsert_write_def)

lemma move_shares_vault: "move_shares s ev f t v = Inr s' \<Longrightarrow> vault s' = vault s"
  by (auto simp: move_shares_Inr_iff)

lemma move_shares_transaction:
  "move_shares s ev f t v = Inr s' \<Longrightarrow> transaction s' = transaction s"
  by (auto simp: move_shares_Inr_iff)

lemma move_shares_balance_sum:
  assumes "move_shares s ev f t v = Inr s'" and "f \<noteq> t"
  shows "balance_sum (vaultBalance s') c a = balance_sum (vaultBalance s) c a"
proof -
  from assms obtain s1 where d: "debit s ev f v = Inr s1" and s': "s' = credit s1 ev t v"
    by (auto simp: move_shares_other_holder and_then_Inr)
  show ?thesis
    using debit_Inr(2) [OF d, of c a] by (simp add: s' credit_simps)
qed
text \<open>
  Every branch of a Transfer keeps the total supply equal to the sum of the balances,
  except the transfer of a holder to itself.
\<close>

lemma supply_invariant_Transfer:
  assumes "MetaMorpho_Transfer ctx s ev f t v = Inr s'" and "supply_invariant s c a"
    and "\<not> self_transfer (Transfer f t v)"
  shows "supply_invariant s' c a"
proof -
  consider (zero) "v = 0"
    | (mint) "v \<noteq> 0" "f = zeroAddress"
    | (burn) "v \<noteq> 0" "f \<noteq> zeroAddress" "t = zeroAddress"
    | (move) "v \<noteq> 0" "f \<noteq> zeroAddress" "t \<noteq> zeroAddress" "f \<noteq> t"
    using assms(3) by auto
  then show ?thesis
  proof cases
    case zero
    with assms show ?thesis by (simp add: MetaMorpho_Transfer_def)
  next
    case mint
    with assms obtain row where row: "db_find (vault s) (vault_pk ev) = Some row"
      and s': "s' = credit (s\<lparr>vault := put_row (vault_pk ev)
                 (row\<lparr>totalSupply := totalSupply row + int v\<rparr>) (vault s)\<rparr>) ev t v"
      by (auto simp: MetaMorpho_Transfer_def and_then_Inr update_vault_fn_Inr)
    show ?thesis
      using row assms(2) unfolding s' supply_invariant_def
      by (auto simp: credit_simps db_find_put_row vault_pk_def split: option.splits)
  next
    case burn
    with assms obtain row s1 where row: "db_find (vault s) (vault_pk ev) = Some row"
      and s1: "s1 = s\<lparr>vault := put_row (vault_pk ev)
                 (row\<lparr>totalSupply := totalSupply row - int v\<rparr>) (vault s)\<rparr>"
      and d: "debit s1 ev f v = Inr s'"
      by (auto simp: MetaMorpho_Transfer_def and_then_Inr update_vault_fn_Inr)
    show ?thesis
      using row assms(2) debit_Inr [OF d] unfolding supply_invariant_def s1
      by (auto simp: db_find_put_row vault_pk_def split: option.splits)
  next
    case move
    with assms obtain s2 row where m: "move_shares s ev f t v = Inr s2"
      and i: "insert_transaction ctx s2 ev row = Inr s'"
      by (auto simp: MetaMorpho_Transfer_def and_then_Inr Let_def split: option.splits)
    have "supply_invariant s2 c a"
      using assms(2) move_shares_vault [OF m] move_shares_balance_sum [OF m move(4), of c a]
      unfolding supply_invariant_def by (simp split: option.splits)
    with i show ?thesis by (rule supply_invariant_insert_transaction)
  qed
qed

lemmas vault_only_handlers =
  MetaMorpho_OwnershipTransferStarted_def MetaMorpho_OwnershipTransferred_def
  MetaMorpho_SubmitGuardian_def MetaMorpho_SubmitTimelock_def
  MetaMorpho_RevokePendingGuardian_def MetaMorpho_RevokePendingTimelock_def
  MetaMorpho_SetCurator_def MetaMorpho_SetFee_def MetaMorpho_SetFeeRecipient_def
  MetaMorpho_SetGuardian_def MetaMorpho_SetIsAllocator_def MetaMorpho_SetName_def
  MetaMorpho_SetSkimRecipient_def MetaMorpho_SetSymbol_def MetaMorpho_SetTimelock_def
  MetaMorpho_UpdateLastTotalAssets_def MetaMorpho_UpdateLostAssets_def

lemmas config_handlers =
  MetaMorpho_SubmitCap_def MetaMorpho_SubmitMarketRemoval_def MetaMorpho_RevokePendingCap_def
  MetaMorpho_RevokePendingMarketRemoval_def MetaMorpho_SetCap_def

lemmas recorder_handlers =
  MetaMorpho_Deposit_def MetaMorpho_Withdraw_def MetaMorpho_AccrueInterest_def
  MetaMorpho_ReallocateSupply_def MetaMorpho_ReallocateWithdraw_def

lemma supply_invariant_SetSupplyQueue:
  assumes "MetaMorpho_SetSupplyQueue s ev q = Inr s'" and "supply_invariant s c a"
  shows "supply_invariant s' c a"
proof (cases "update_vault_fn s ev (\<lambda>row. row\<lparr>supplyQueueLength := length q\<rparr>)")
  case (Inl e)
  with assms(1) show ?thesis
    by (simp add: MetaMorpho_SetSupplyQueue_def Let_def and_then_def)
next
  case (Inr s1)
  with assms(1) have "vault s' = vault s1" and "vaultBalance s' = vaultBalance s1"
    by (auto simp: MetaMorpho_SetSupplyQueue_def Let_def and_then_def)
  moreover have "supply_invariant s1 c a"
    using Inr _ assms(2) by (rule supply_invariant_update_vault_fn) simp
  ultimately show ?thesis using supply_invariant_cong [of s' s1 c a] by simp
qed

lemma supply_invariant_SetWithdrawQueue:
  assumes "MetaMorpho_SetWithdrawQueue s ev q = Inr s'" and "supply_invariant s c a"
  shows "supply_invariant s' c a"
proof (cases "update_vault_fn s ev (\<lambda>row. row\<lparr>withdrawQueueLength := length q\<rparr>)")
  case (Inl e)
  with assms(1) show ?thesis
    by (simp add: MetaMorpho_SetWithdrawQueue_def Let_def and_then_def)
next
  case (Inr s1)
  with assms(1) have "vault s' = vault s1" and "vaultBalance s' = vaultBalance s1"
    by (auto simp: MetaMorpho_SetWithdrawQueue_def Let_def and_then_def)
  moreover have "supply_invariant s1 c a"
    using Inr _ assms(2) by (rule supply_invariant_update_vault_fn) simp
  ultimately show ?thesis using supply_invariant_cong [of s' s1 c a] by simp
qed

lemma supply_invariant_vault_only:
  shows "MetaMorpho_OwnershipTransferStarted ctx s ev x = Inr s' \<Longrightarrow> supply_invariant s c a \<Longrightarrow>
         supply_invariant s' c a"
    and "MetaMorpho_OwnershipTransferred ctx s ev x = Inr s' \<Longrightarrow> supply_invariant s c a \<Longrightarrow>
         supply_invariant s' c a"
    and "MetaMorpho_SubmitGuardian ctx s ev x = Inr s' \<Longrightarrow> supply_invariant s c a \<Longrightarrow>
         supply_invariant s' c a"
    and "MetaMorpho_SubmitTimelock ctx s ev n = Inr s' \<Longrightarrow> supply_invariant s c a \<Longrightarrow>
         supply_invariant s' c a"
    and "MetaMorpho_RevokePendingGuardian ctx s ev = Inr s' \<Longrightarrow> supply_invariant s c a \<Longrightarrow>
         supply_invariant s' c a"
    and "MetaMorpho_RevokePendingTimelock ctx s ev = Inr s' \<Longrightarrow> supply_invariant s c a \<Longrightarrow>
         supply_invariant s' c a"
    and "MetaMorpho_SetCurator ctx s ev x = Inr s' \<Longrightarrow> supply_invariant s c a \<Longrightarrow>
         supply_invariant s' c a"
    and "MetaMorpho_SetFee ctx s ev n = Inr s' \<Longrightarrow> supply_invariant s c a \<Longrightarrow>
         supply_invariant s' c a"
    and "MetaMorpho_SetFeeRecipient ctx s ev x = Inr s' \<Longrightarrow> supply_invariant s c a \<Longrightarrow>
         supply_invariant s' c a"
    and "MetaMorpho_SetGuardian ctx s ev x = Inr s' \<Longrightarrow> supply_invariant s c a \<Longrightarrow>
         supply_invariant s' c a"
    and "MetaMorpho_SetIsAllocator s ev x b = Inr s' \<Longrightarrow> supply_invariant s c a \<Longrightarrow>
         supply_invariant s' c a"
    and "MetaMorpho_SetName ctx s ev y = Inr s' \<Longrightarrow> supply_invariant s c a \<Longrightarrow>
         supply_invariant s' c a"
    and "MetaMorpho_SetSkimRecipient ctx s ev x = Inr s' \<Longrightarrow> supply_invariant s c a \<Longrightarrow>
         supply_invariant s' c a"
    and "MetaMorpho_SetSymbol ctx s ev y = Inr s' \<Longrightarrow> supply_invariant s c a \<Longrightarrow>
         supply_invariant s' c a"
    and "MetaMorpho_SetTimelock ctx s ev n = Inr s' \<Longrightarrow> supply_invariant s c a \<Longrightarrow>
         supply_invariant s' c a"
    and "MetaMorpho_UpdateLastTotalAssets ctx s ev n = Inr s' \<Longrightarrow> supply_invariant s c a \<Longrightarrow>
         supply_invariant s' c a"
    and "MetaMorpho_UpdateLostAssets ctx s ev n = Inr s' \<Longrightarrow> supply_invariant s c a \<Longrightarrow>
         supply_invariant s' c a"
  unfolding vault_only_handlers Let_def
  by (erule supply_invariant_update_vault supply_invariant_update_vault_fn
        supply_invariant_update_vault_if_exists; simp)+

lemma supply_invariant_config:
  shows "MetaMorpho_SubmitCap ctx s ev m n = Inr s' \<Longrightarrow> supply_invariant s c a \<Longrightarrow>
         supply_invariant s' c a"
    and "MetaMorpho_SubmitMarketRemoval ctx s ev m = Inr s' \<Longrightarrow> supply_invariant s c a \<Longrightarrow>
         supply_invariant s' c a"
    and "MetaMorpho_RevokePendingCap ctx s ev m = Inr s' \<Longrightarrow> supply_invariant s c a \<Longrightarrow>
         supply_invariant s' c a"
    and "MetaMorpho_RevokePendingMarketRemoval ctx s ev m = Inr s' \<Longrightarrow> supply_invariant s c a \<Longrightarrow>
         supply_invariant s' c a"
    and "MetaMorpho_SetCap ctx s ev m n = Inr s' \<Longrightarrow> supply_invariant s c a \<Longrightarrow>
         supply_invariant s' c a"
  unfolding config_handlers Let_def
  by (auto intro: supply_invariant_update_config supply_invariant_upsert_config)

lemma supply_invariant_recorder:
  shows "MetaMorpho_Deposit ctx s ev x1 x2 n1 n2 = Inr s' \<Longrightarrow> supply_invariant s c a \<Longrightarrow>
         supply_invariant s' c a"
    and "MetaMorpho_Withdraw ctx s ev x1 x2 x3 n1 n2 = Inr s' \<Longrightarrow> supply_invariant s c a \<Longrightarrow>
         supply_invariant s' c a"
    and "MetaMorpho_AccrueInterest ctx s ev n1 n2 = Inr s' \<Longrightarrow> supply_invariant s c a \<Longrightarrow>
         supply_invariant s' c a"
    and "MetaMorpho_ReallocateSupply ctx s ev x1 m n1 n2 = Inr s' \<Longrightarrow> supply_invariant s c a \<Longrightarrow>
         supply_invariant s' c a"
    and "MetaMorpho_ReallocateWithdraw ctx s ev x1 m n1 n2 = Inr s' \<Longrightarrow> supply_invariant s c a \<Longrightarrow>
         supply_invariant s' c a"
  unfolding recorder_handlers
  by (auto split: if_splits option.splits dest: supply_invariant_insert_transaction)

lemma supply_invariant_handle:
  assumes "handle ctx s ev = Inr s'" and "supply_invariant s c a"
    and "\<not> self_transfer (args ev)"
  shows "supply_invariant s' c a"
proof (cases "\<exists>f t v. args ev = Transfer f t v")
  case True
  then obtain f t v where a: "args ev = Transfer f t v" by blast
  with assms(1) have "MetaMorpho_Transfer ctx s ev f t v = Inr s'"
    by (simp add: handle_def)
  then show ?thesis
    using assms(2,3) a by (simp add: supply_invariant_Transfer)
next
  case False
  from assms(1) have d: "dispatch ctx s ev (args ev) = Inr s'"
    by (simp only: handle_def)
  show ?thesis
    by (insert d assms(2) False, cases "args ev"; simp only: dispatch.simps;
        (erule (1) supply_invariant_vault_only supply_invariant_config
          supply_invariant_recorder supply_invariant_SetSupplyQueue
          supply_invariant_SetWithdrawQueue | simp))
qed

text \<open>
  A run of events none of which is a transfer of a holder to itself keeps the total
  supply of every vault equal to the sum of its balances.
\<close>

lemma supply_invariant_run:
  assumes "run ctx s evs = Inr s'" and "supply_invariant s c a"
    and "\<forall>ev \<in> set evs. \<not> self_transfer (args ev)"
  shows "supply_invariant s' c a"
  using assms
proof (induction evs arbitrary: s)
  case Nil
  then show ?case by simp
next
  case (Cons ev evs)
  then obtain s1 where h: "handle ctx s ev = Inr s1" and r: "run ctx s1 evs = Inr s'"
    by (auto simp: and_then_Inr)
  from Cons.prems have "supply_invariant s1 c a"
    using supply_invariant_handle [OF h] by simp
  with Cons.IH [OF r] Cons.prems(3) show ?case by simp
qed

text \<open>What the three branches of a Transfer of a value that is not zero do to the ledger.\<close>

lemma balance_of_credit:
  "balance_of (credit s ev t v) ev u = balance_of s ev u + (if u = t then int v else 0)"
  by (auto simp: balance_of_def credit_def db_find_upsert split: option.splits)

lemma balance_of_debit:
  "debit s ev f v = Inr s' \<Longrightarrow>
   balance_of s' ev u = balance_of s ev u - (if u = f then int v else 0)"
  by (auto simp: balance_of_def debit_Inr_iff db_find_put_row split: option.splits)

lemma total_supply_debit: "debit s ev f v = Inr s' \<Longrightarrow> total_supply s' ev' = total_supply s ev'"
  by (auto simp: total_supply_def debit_Inr_iff)

lemma balance_of_other_tables:
  "balance_of (s\<lparr>vault := x\<rparr>) ev u = balance_of s ev u"
  "balance_of (s\<lparr>transaction := y\<rparr>) ev u = balance_of s ev u"
  by (simp_all add: balance_of_def)

lemma balance_of_move_shares:
  assumes "move_shares s ev f t v = Inr s'"
  shows "balance_of s' ev t = balance_of s ev t + int v"
    and "f \<noteq> t \<Longrightarrow> balance_of s' ev f = balance_of s ev f - int v"
proof -
  from assms obtain old where o: "db_find (vaultBalance s) (balance_pk ev f) = Some old"
    and s': "vaultBalance s' =
               upsert_write
                 (put_row (balance_pk ev f) (old\<lparr>shares := shares old - int v\<rparr>) (vaultBalance s))
                 (balance_pk ev t) \<lparr>shares = int v\<rparr> (\<lambda>row. row\<lparr>shares := shares row + int v\<rparr>)
                 (db_find (vaultBalance s) (balance_pk ev t))"
    by (auto simp: move_shares_Inr_iff)
  show "balance_of s' ev t = balance_of s ev t + int v"
    using o
    by (auto simp: balance_of_def s' upsert_write_def db_find_put_row db_find_append
        split: option.splits)
  show "balance_of s' ev f = balance_of s ev f - int v" if "f \<noteq> t"
    using o that
    by (auto simp: balance_of_def s' upsert_write_def db_find_put_row db_find_append
        split: option.splits)
qed

lemma Transfer_mint_moves:
  assumes "MetaMorpho_Transfer ctx s ev zeroAddress t v = Inr s1" and "v \<noteq> 0"
  shows "\<exists>n. total_supply s ev = Some n \<and> total_supply s1 ev = Some (n + int v) \<and>
           balance_of s1 ev t = balance_of s ev t + int v"
  using assms
  by (auto simp: MetaMorpho_Transfer_def and_then_Inr update_vault_fn_Inr balance_of_credit
      credit_simps(1) balance_of_other_tables total_supply_def db_find_put_row)

lemma Transfer_burn_moves:
  assumes "MetaMorpho_Transfer ctx s ev f zeroAddress v = Inr s1" and "v \<noteq> 0"
    and "f \<noteq> zeroAddress"
  shows "\<exists>n. total_supply s ev = Some n \<and> total_supply s1 ev = Some (n - int v) \<and>
           balance_of s1 ev f = balance_of s ev f - int v"
proof -
  from assms obtain row where r: "db_find (vault s) (vault_pk ev) = Some row"
    and d: "debit (s\<lparr>vault := put_row (vault_pk ev)
               (row\<lparr>totalSupply := totalSupply row - int v\<rparr>) (vault s)\<rparr>) ev f v = Inr s1"
    by (auto simp: MetaMorpho_Transfer_def and_then_Inr update_vault_fn_Inr)
  show ?thesis
    using r balance_of_debit [OF d, of f] total_supply_debit [OF d, of ev]
    by (simp add: total_supply_def db_find_put_row balance_of_other_tables)
qed

lemma Transfer_transfer_moves:
  assumes "MetaMorpho_Transfer ctx s ev f t v = Inr s1" and "v \<noteq> 0"
    and "f \<noteq> zeroAddress" and "t \<noteq> zeroAddress"
  shows "total_supply s1 ev = total_supply s ev \<and>
         balance_of s1 ev t = balance_of s ev t + int v \<and>
         (f \<noteq> t \<longrightarrow> balance_of s1 ev f = balance_of s ev f - int v)"
proof -
  from assms obtain s2 row where m: "move_shares s ev f t v = Inr s2"
    and i: "insert_transaction ctx s2 ev row = Inr s1"
    by (auto simp: MetaMorpho_Transfer_def and_then_Inr Let_def split: option.splits)
  from insert_transaction_Inr [OF i] have "vault s1 = vault s2" "vaultBalance s1 = vaultBalance s2"
    by simp_all
  then show ?thesis
    using balance_of_move_shares [OF m] move_shares_vault [OF m]
    by (simp add: total_supply_def balance_of_def)
qed

text \<open>
  C1 (where the handler breaks it). The total supply of a vault is meant to equal the
  sum of the shares of its balance rows after each applied Transfer event. The mint and
  the burn branch and the transfer between two different holders keep the equality
  (\<open>supply_invariant_run\<close>).
  The transfer of a holder to itself does not: the update of the sender and the upsert
  of the recipient are started together and both read the row of the holder before
  either writes, so the credit is computed from the balance before the debit and
  replaces it. On the example store, in which one holder has all 1000 shares, a transfer
  of 500 shares from that holder to itself completes on either store and leaves the
  holder with 1500 shares against a total supply of 1000.
\<close>

theorem self_transfer_breaks_the_ledger:
  "supply_invariant ex_db_funded 1 ex_vault \<and>
   handle (ex_ctx Historical) ex_db_funded ex_self_transfer = Inr ex_db_after_self_transfer \<and>
   handle (ex_ctx Realtime) ex_db_funded ex_self_transfer = Inr ex_db_after_self_transfer \<and>
   total_supply ex_db_after_self_transfer ex_self_transfer = Some 1000 \<and>
   balance_of ex_db_after_self_transfer ex_self_transfer ex_alice = 1500 \<and>
   balance_sum (vaultBalance ex_db_after_self_transfer) 1 ex_vault = 1500 \<and>
   \<not> supply_invariant ex_db_after_self_transfer 1 ex_vault"
  by (simp add: supply_invariant_def balance_sum_def total_supply_def balance_of_def handle_def
      MetaMorpho_Transfer_def move_shares_def ex_defs store_defs)

section \<open>The transaction recorder\<close>

text \<open>
  C2 (as the handlers have it). A deposit or a withdrawal of zero shares, a fee accrual
  of zero fee shares and a transfer of zero value return before any write and leave the
  store as it is: no audit row, no balance change. The two reallocation handlers have no
  such check: whatever the amounts, also zero, they insert the audit row of the event
  when its key is free.
\<close>

theorem zero_share_events_write_nothing:
  "handle ctx s (ev\<lparr>args := Deposit sender_arg owner_arg assets 0\<rparr>) = Inr s \<and>
   handle ctx s (ev\<lparr>args := Withdraw sender_arg receiver_arg owner_arg assets 0\<rparr>) = Inr s \<and>
   handle ctx s (ev\<lparr>args := AccrueInterest newTotalAssets 0\<rparr>) = Inr s \<and>
   handle ctx s (ev\<lparr>args := Transfer from_arg to_arg 0\<rparr>) = Inr s \<and>
   (db_find (transaction s) (transaction_pk ev) = None \<longrightarrow>
      (\<exists>s'. handle ctx s (ev\<lparr>args := ReallocateSupply caller mid x y\<rparr>) = Inr s' \<and>
            recorded s' =
              recorded s @ [(transaction_pk ev, VaultReallocateSupply, int y, int x)]) \<and>
      (\<exists>s'. handle ctx s (ev\<lparr>args := ReallocateWithdraw caller mid x y\<rparr>) = Inr s' \<and>
            recorded s' =
              recorded s @ [(transaction_pk ev, VaultReallocateWithdraw, int y, int x)]))"
  by (simp add: handle_def MetaMorpho_Deposit_def MetaMorpho_Withdraw_def
      MetaMorpho_AccrueInterest_def MetaMorpho_Transfer_def MetaMorpho_ReallocateSupply_def
      MetaMorpho_ReallocateWithdraw_def insert_transaction_def db_insert_def and_then_def
      transaction_pk_def recorded_def)

theorem zero_share_events_write_nothing_witness:
  "db_find (transaction ex_db) (transaction_pk (ex_event 0 RevokePendingGuardian)) = None \<and>
   handle (ex_ctx Realtime) ex_db (ex_event 0 (Transfer ex_alice ex_bob 0)) = Inr ex_db \<and>
   (\<exists>s'. handle (ex_ctx Realtime) ex_db (ex_event 0 (ReallocateSupply ex_alice ex_market 0 0)) =
           Inr s' \<and>
         recorded s' = [((1, ''0xabc'', 0), VaultReallocateSupply, 0, 0)])"
proof -
  have k: "db_find (transaction ex_db) (transaction_pk (ex_event 0 RevokePendingGuardian)) = None"
    by (simp add: ex_defs store_defs)
  show ?thesis
    using k zero_share_events_write_nothing [where ctx = "ex_ctx Realtime" and s = ex_db
        and ev = "ex_event 0 RevokePendingGuardian" and from_arg = ex_alice and to_arg = ex_bob
        and caller = ex_alice and mid = ex_market and x = 0 and y = 0]
    by (simp add: ex_defs store_defs recorded_def)
qed

text \<open>
  A reallocation of zero assets and zero shares is recorded, on either store: the store
  that had no audit row has one after the event.
\<close>

theorem zero_reallocation_is_recorded:
  "transaction ex_db = [] \<and>
   handle (ex_ctx Historical) ex_db (ex_event 0 (ReallocateSupply ex_alice ex_market 0 0)) =
     Inr (ex_db\<lparr>transaction :=
           [((1, ''0xabc'', 0),
             \<lparr>blockNumber = 7, timestamp = 1000, type_tag = VaultReallocateSupply,
              user = ex_alice, sender = ex_alice, receiver = None, vaultAddress = ex_vault,
              tx_marketId = Some ex_market, vaultShares = 0, vaultAssets = 0\<rparr>)]\<rparr>) \<and>
   handle (ex_ctx Realtime) ex_db (ex_event 0 (ReallocateSupply ex_alice ex_market 0 0)) =
     Inr (ex_db\<lparr>transaction :=
           [((1, ''0xabc'', 0),
             \<lparr>blockNumber = 7, timestamp = 1000, type_tag = VaultReallocateSupply,
              user = ex_alice, sender = ex_alice, receiver = None, vaultAddress = ex_vault,
              tx_marketId = Some ex_market, vaultShares = 0, vaultAssets = 0\<rparr>)]\<rparr>)"
  by (simp add: handle_def MetaMorpho_ReallocateSupply_def ex_defs store_defs)

section \<open>Events whose row is missing\<close>

lemma missing_vault_row_of_a_function_update:
  assumes "db_find (vault s) (vault_pk ev) = None" and "updates_vault_row (args ev)"
  shows "handle ctx s ev = Inl (RecordNotFound T_vault)"
  using assms
  by (cases "args ev")
    (auto simp: handle_def MetaMorpho_SetIsAllocator_def update_vault_fn_missing
      MetaMorpho_SetSupplyQueue_def MetaMorpho_SetWithdrawQueue_def MetaMorpho_Transfer_def
      and_then_def)

lemma missing_balance_row_of_an_update:
  assumes "updates_balance_row (args ev) = Some u"
    and "db_find (vaultBalance s) (balance_pk ev u) = None"
    and "db_find (vault s) (vault_pk ev) \<noteq> None"
  shows "handle ctx s ev = Inl (RecordNotFound T_vaultBalance)"
  using assms
  by (cases "args ev")
    (auto simp: handle_def MetaMorpho_Transfer_def debit_def db_update_fn_def and_then_def
      update_vault_fn_found move_shares_missing split: if_splits)

lemma missing_vault_row_of_an_object_update:
  assumes "db_find (vault s) (vault_pk ev) = None" and "sets_vault_row (args ev)"
  shows "handle ctx s ev =
     (case store ctx of Historical \<Rightarrow> Inl (RecordNotFound T_vault) | Realtime \<Rightarrow> Inr s)"
  using assms
  by (cases "args ev")
    (simp_all add: handle_def vault_only_handlers Let_def update_vault_missing)

lemma missing_config_row_of_an_object_update:
  assumes "db_find (vaultConfigItem s) (config_pk ev m) = None"
    and "sets_config_row (args ev) = Some m"
  shows "handle ctx s ev =
     (case store ctx of
        Historical \<Rightarrow> Inl (RecordNotFound T_vaultConfigItem)
      | Realtime \<Rightarrow> Inr s)"
  using assms
  by (cases "args ev")
    (simp_all add: handle_def MetaMorpho_SetCap_def MetaMorpho_SubmitMarketRemoval_def Let_def
      update_config_missing)

lemma AccrueInterest_missing_vault:
  "db_find (vault s) (vault_pk ev) = None \<Longrightarrow> MetaMorpho_AccrueInterest ctx s ev x y = Inr s"
  by (simp add: MetaMorpho_AccrueInterest_def)

text \<open>
  C3 (as the handlers have it). What an event does when the row that its handler
  updates is missing depends on the form of the update and on the store. An update with
  a function fails with the error of the missing row on either store: the vault row for
  the events of \<open>updates_vault_row\<close>, the balance row of the sender for a burn and a
  transfer. An update with an object of columns fails with that error on the historical
  store, and returns without an error and without a write on the realtime store: the
  vault row for the events of \<open>sets_vault_row\<close>, the ConfigItem row for a market removal
  submission and a cap finalization. A fee accrual whose vault row is missing is not an
  error on either store: the handler returns and leaves the store as it is.
\<close>

theorem missing_row_of_an_update:
  "(db_find (vault s) (vault_pk ev) = None \<and> updates_vault_row (args ev) \<longrightarrow>
      handle ctx s ev = Inl (RecordNotFound T_vault)) \<and>
   (db_find (vaultBalance s) (balance_pk ev u) = None \<and> updates_balance_row (args ev) = Some u \<and>
    db_find (vault s) (vault_pk ev) \<noteq> None \<longrightarrow>
      handle ctx s ev = Inl (RecordNotFound T_vaultBalance)) \<and>
   (db_find (vault s) (vault_pk ev) = None \<and> sets_vault_row (args ev) \<longrightarrow>
      handle ctx s ev =
        (case store ctx of Historical \<Rightarrow> Inl (RecordNotFound T_vault) | Realtime \<Rightarrow> Inr s)) \<and>
   (db_find (vaultConfigItem s) (config_pk ev m) = None \<and> sets_config_row (args ev) = Some m \<longrightarrow>
      handle ctx s ev =
        (case store ctx of
           Historical \<Rightarrow> Inl (RecordNotFound T_vaultConfigItem)
         | Realtime \<Rightarrow> Inr s)) \<and>
   (db_find (vault s) (vault_pk ev) = None \<and> args ev = AccrueInterest newTotalAssets feeShares \<longrightarrow>
      handle ctx s ev = Inr s)"
  using missing_vault_row_of_a_function_update [of s ev ctx]
    missing_balance_row_of_an_update [of ev u s ctx]
    missing_vault_row_of_an_object_update [of s ev ctx]
    missing_config_row_of_an_object_update [of s ev m ctx]
    AccrueInterest_missing_vault [of s ev ctx newTotalAssets feeShares]
  by (simp add: handle_def)

theorem missing_row_of_an_update_witness:
  "db_find (vault empty_db) (vault_pk (ex_event 0 (SetSupplyQueue []))) = None \<and>
   updates_vault_row (args (ex_event 0 (SetSupplyQueue []))) \<and>
   handle (ex_ctx Realtime) empty_db (ex_event 0 (SetSupplyQueue [])) =
     Inl (RecordNotFound T_vault) \<and>
   updates_balance_row (args (ex_event 0 (Transfer ex_alice ex_bob 5))) = Some ex_alice \<and>
   handle (ex_ctx Realtime) ex_db (ex_event 0 (Transfer ex_alice ex_bob 5)) =
     Inl (RecordNotFound T_vaultBalance) \<and>
   sets_vault_row (args (ex_event 0 (SubmitGuardian ex_bob))) \<and>
   handle (ex_ctx Historical) empty_db (ex_event 0 (SubmitGuardian ex_bob)) =
     Inl (RecordNotFound T_vault) \<and>
   handle (ex_ctx Realtime) empty_db (ex_event 0 (SubmitGuardian ex_bob)) = Inr empty_db \<and>
   db_find (vaultConfigItem ex_db) (config_pk (ex_event 0 (SetCap ex_market 5)) ex_market) = None \<and>
   sets_config_row (args (ex_event 0 (SetCap ex_market 5))) = Some ex_market \<and>
   handle (ex_ctx Historical) ex_db (ex_event 0 (SetCap ex_market 5)) =
     Inl (RecordNotFound T_vaultConfigItem) \<and>
   handle (ex_ctx Realtime) ex_db (ex_event 0 (SetCap ex_market 5)) = Inr ex_db \<and>
   handle (ex_ctx Historical) empty_db (ex_event 0 (AccrueInterest 1000 5)) = Inr empty_db"
  using
    missing_row_of_an_update [where s = empty_db and ev = "ex_event 0 (SetSupplyQueue [])"
      and ctx = "ex_ctx Realtime"]
    missing_row_of_an_update [where s = ex_db and ev = "ex_event 0 (Transfer ex_alice ex_bob 5)"
      and u = ex_alice and ctx = "ex_ctx Realtime"]
    missing_row_of_an_update [where s = empty_db and ev = "ex_event 0 (SubmitGuardian ex_bob)"
      and ctx = "ex_ctx Historical"]
    missing_row_of_an_update [where s = empty_db and ev = "ex_event 0 (SubmitGuardian ex_bob)"
      and ctx = "ex_ctx Realtime"]
    missing_row_of_an_update [where s = ex_db and ev = "ex_event 0 (SetCap ex_market 5)"
      and ctx = "ex_ctx Historical" and m = ex_market]
    missing_row_of_an_update [where s = ex_db and ev = "ex_event 0 (SetCap ex_market 5)"
      and ctx = "ex_ctx Realtime" and m = ex_market]
    missing_row_of_an_update [where s = empty_db and ev = "ex_event 0 (AccrueInterest 1000 5)"
      and ctx = "ex_ctx Historical" and newTotalAssets = 1000 and feeShares = 5]
  by (simp add: ex_defs store_defs)

text \<open>
  A fee accrual with five fee shares on a store without the vault row completes, on
  either store, and changes nothing.
\<close>

theorem fee_accrual_without_vault_row_is_skipped:
  "db_find (vault empty_db) (vault_pk (ex_event 0 (AccrueInterest 1000 5))) = None \<and>
   handle (ex_ctx Historical) empty_db (ex_event 0 (AccrueInterest 1000 5)) = Inr empty_db \<and>
   handle (ex_ctx Realtime) empty_db (ex_event 0 (AccrueInterest 1000 5)) = Inr empty_db"
  by (simp add: handle_def MetaMorpho_AccrueInterest_def ex_defs store_defs)

section \<open>Market removal\<close>

text \<open>
  C4 (as the handler has it). A market removal submission updates the ConfigItem row of
  the market and does not upsert it: when the row exists the handler sets its
  \<^verbatim>\<open>removableAt\<close> to the block timestamp plus the timelock of the vault (zero without a
  vault row) and leaves the other columns; when the row does not exist no row is
  created: on the historical store the handler fails with the error of the missing row,
  on the realtime store it returns and leaves the store as it is.
\<close>

theorem SubmitMarketRemoval_does_not_upsert:
  "(db_find (vaultConfigItem s) (config_pk ev m) = None \<longrightarrow>
      MetaMorpho_SubmitMarketRemoval ctx s ev m =
        (case store ctx of
           Historical \<Rightarrow> Inl (RecordNotFound T_vaultConfigItem)
         | Realtime \<Rightarrow> Inr s)) \<and>
   (\<forall>row. db_find (vaultConfigItem s) (config_pk ev m) = Some row \<longrightarrow>
      (\<exists>s'. MetaMorpho_SubmitMarketRemoval ctx s ev m = Inr s' \<and>
            db_find (vaultConfigItem s') (config_pk ev m) =
              Some (row\<lparr>removableAt := int (block_timestamp ev) + timelock_or_zero s ev\<rparr>)))"
  by (simp add: MetaMorpho_SubmitMarketRemoval_def Let_def update_config_missing
      update_config_found db_find_put_row)

theorem SubmitMarketRemoval_does_not_upsert_witness:
  "db_find (vaultConfigItem ex_db) (config_pk (ex_event 0 (SubmitMarketRemoval ex_market)) ex_market)
     = None \<and>
   MetaMorpho_SubmitMarketRemoval (ex_ctx Historical) ex_db
       (ex_event 0 (SubmitMarketRemoval ex_market)) ex_market =
     Inl (RecordNotFound T_vaultConfigItem) \<and>
   MetaMorpho_SubmitMarketRemoval (ex_ctx Realtime) ex_db
       (ex_event 0 (SubmitMarketRemoval ex_market)) ex_market = Inr ex_db \<and>
   db_find (vaultConfigItem ex_db_with_market)
     (config_pk (ex_event 0 (SubmitMarketRemoval ex_market)) ex_market) = Some ex_config_row \<and>
   (\<exists>s'. MetaMorpho_SubmitMarketRemoval (ex_ctx Realtime) ex_db_with_market
           (ex_event 0 (SubmitMarketRemoval ex_market)) ex_market = Inr s' \<and>
         db_find (vaultConfigItem s') (1, ex_vault, ex_market) =
           Some (ex_config_row\<lparr>removableAt := 87400\<rparr>))"
  using SubmitMarketRemoval_does_not_upsert
      [where s = ex_db and ev = "ex_event 0 (SubmitMarketRemoval ex_market)" and m = ex_market
        and ctx = "ex_ctx Historical"]
    SubmitMarketRemoval_does_not_upsert
      [where s = ex_db and ev = "ex_event 0 (SubmitMarketRemoval ex_market)" and m = ex_market
        and ctx = "ex_ctx Realtime"]
    SubmitMarketRemoval_does_not_upsert
      [where s = ex_db_with_market and ev = "ex_event 0 (SubmitMarketRemoval ex_market)"
        and m = ex_market and ctx = "ex_ctx Realtime"]
  by (simp add: ex_defs store_defs MetaMorpho_SubmitMarketRemoval_def)

text \<open>
  A market removal submission for a market of the example vault that has no ConfigItem
  row creates no row: it fails on the historical store and returns the store as it is
  on the realtime store.
\<close>

theorem SubmitMarketRemoval_creates_no_row:
  "db_find (vaultConfigItem ex_db) (config_pk (ex_event 0 (SubmitMarketRemoval ex_market)) ex_market)
     = None \<and>
   handle (ex_ctx Historical) ex_db (ex_event 0 (SubmitMarketRemoval ex_market)) =
     Inl (RecordNotFound T_vaultConfigItem) \<and>
   handle (ex_ctx Realtime) ex_db (ex_event 0 (SubmitMarketRemoval ex_market)) = Inr ex_db"
  by (simp add: handle_def MetaMorpho_SubmitMarketRemoval_def ex_defs store_defs)

section \<open>Queue replacement\<close>

lemma db_find_fold_upsert:
  assumes "distinct (map fst xs)"
  shows "db_find (fold (\<lambda>(k, r) t'. db_upsert t' k r (g k)) xs t) k' =
     (case map_of xs k' of
        None \<Rightarrow> db_find t k'
      | Some r \<Rightarrow> Some (case db_find t k' of None \<Rightarrow> r | Some old \<Rightarrow> g k' old))"
  using assms
proof (induction xs arbitrary: t)
  case Nil
  then show ?case by simp
next
  case (Cons x xs)
  obtain k r where x: "x = (k, r)" by (cases x)
  from Cons.prems x have nk: "map_of xs k = None" and d: "distinct (map fst xs)"
    by (auto simp: map_of_eq_None_iff)
  show ?case
    using Cons.IH [OF d, of "db_upsert t k r (g k)"] nk
    by (auto simp: x db_find_upsert split: option.splits)
qed

lemma map_of_getQueueItems:
  "map_of (getQueueItems c a n q) (c', a', i) =
     (if c' = c \<and> a' = a \<and> i < max n (length q) then Some \<lparr>marketId = at q i\<rparr> else None)"
proof -
  have "map_of (map (\<lambda>j. ((c, a, j), \<lparr>marketId = at q j\<rparr>)) js) (c', a', i) =
          (if c' = c \<and> a' = a \<and> i \<in> set js then Some \<lparr>marketId = at q i\<rparr> else None)" for js
    by (induction js) auto
  then show ?thesis by (simp add: getQueueItems_def)
qed

lemma distinct_getQueueItems: "distinct (map fst (getQueueItems c a n q))"
  by (simp add: getQueueItems_def distinct_map inj_on_def comp_def)

lemma at_getQueueItems:
  "at (getQueueItems c a n q) i =
     (if i < max n (length q) then Some ((c, a, i), \<lparr>marketId = at q i\<rparr>) else None)"
  by (simp add: at_def getQueueItems_def)

lemma queue_row_update: "(row :: queue_row)\<lparr>marketId := x\<rparr> = \<lparr>marketId = x\<rparr>"
  by (cases row) simp

lemma db_find_upsert_queue_items:
  "db_find (upsert_queue_items t (getQueueItems c a n q)) (c, a, i) =
     (if i < max n (length q) then Some \<lparr>marketId = at q i\<rparr> else db_find t (c, a, i))"
  unfolding upsert_queue_items_def
  by (simp add: db_find_fold_upsert [OF distinct_getQueueItems] map_of_getQueueItems
      at_getQueueItems queue_row_update split: option.splits)

text \<open>
  C6. A queue replacement on a vault whose row records the length \<open>L_old\<close> succeeds and
  sets the recorded length to the length \<open>L_new\<close> of the incoming queue. Afterwards the
  queue row at every ordinal below the larger of the two lengths holds the entry of the
  incoming queue at that ordinal, or null from \<open>L_new\<close> on; the rows at the other ordinals
  are as before. This holds for the supply queue and for the withdraw queue.
\<close>

theorem queue_replacement:
  "\<forall>row. db_find (vault s) (vault_pk ev) = Some row \<longrightarrow>
     (\<exists>s'. MetaMorpho_SetSupplyQueue s ev q = Inr s' \<and>
        map_option supplyQueueLength (db_find (vault s') (vault_pk ev)) = Some (length q) \<and>
        (\<forall>i. db_find (vaultSupplyQueueItem s') (queue_pk ev i) =
           (if i < max (supplyQueueLength row) (length q)
            then Some \<lparr>marketId = (if i < length q then Some (q ! i) else None)\<rparr>
            else db_find (vaultSupplyQueueItem s) (queue_pk ev i)))) \<and>
     (\<exists>s'. MetaMorpho_SetWithdrawQueue s ev q = Inr s' \<and>
        map_option withdrawQueueLength (db_find (vault s') (vault_pk ev)) = Some (length q) \<and>
        (\<forall>i. db_find (vaultWithdrawQueueItem s') (queue_pk ev i) =
           (if i < max (withdrawQueueLength row) (length q)
            then Some \<lparr>marketId = (if i < length q then Some (q ! i) else None)\<rparr>
            else db_find (vaultWithdrawQueueItem s) (queue_pk ev i))))"
  by (simp add: MetaMorpho_SetSupplyQueue_def MetaMorpho_SetWithdrawQueue_def Let_def
      update_vault_fn_found and_then_def db_find_put_row db_find_upsert_queue_items queue_pk_def
      at_def)

theorem queue_replacement_witness:
  "map_option supplyQueueLength (db_find (vault ex_db_with_queue) (vault_pk ex_SetSupplyQueue)) =
     Some 5 \<and>
   (\<exists>s'. MetaMorpho_SetSupplyQueue ex_db_with_queue ex_SetSupplyQueue [''0xb0'', ''0xb1''] = Inr s' \<and>
      map_option supplyQueueLength (db_find (vault s') (vault_pk ex_SetSupplyQueue)) = Some 2 \<and>
      map (\<lambda>p. (snd (snd (fst p)), marketId (snd p))) (vaultSupplyQueueItem s') =
        [(0, Some ''0xb0''), (1, Some ''0xb1''), (2, None), (3, None), (4, None)])"
  using queue_replacement [of ex_db_with_queue ex_SetSupplyQueue "[''0xb0'', ''0xb1'']"]
  by (simp add: ex_defs store_defs MetaMorpho_SetSupplyQueue_def getQueueItems_def
      upsert_queue_items_def at_def upt_conv_Cons)

section \<open>The cap of a market\<close>

lemma db_find_upsert_config:
  "db_find (vaultConfigItem (upsert_config s ev m row f)) (config_pk ev m) =
     Some (case db_find (vaultConfigItem s) (config_pk ev m) of None \<Rightarrow> row | Some old \<Rightarrow> f old)"
  by (simp add: upsert_config_def db_find_upsert)

text \<open>
  C7. A cap submission at block time \<open>t\<close> on a vault whose row has the timelock \<open>D\<close> leaves
  the ConfigItem row of the market with the pending cap of the event, valid at \<open>t + D\<close>. A
  cap finalization with a cap that is not zero, on an existing ConfigItem row, sets the
  cap, clears the pending cap and its timestamp and enables the market. A revocation on
  an existing ConfigItem row clears the pending cap and its timestamp and keeps the cap.
\<close>

theorem cap_lifecycle:
  "(\<forall>vrow. db_find (vault s) (vault_pk ev) = Some vrow \<longrightarrow>
      (\<exists>s' row'. MetaMorpho_SubmitCap ctx s ev m c = Inr s' \<and>
         db_find (vaultConfigItem s') (config_pk ev m) = Some row' \<and>
         pendingCap row' = int c \<and>
         pendingCapValidAt row' = int (block_timestamp ev) + timelock vrow)) \<and>
   (\<forall>row. db_find (vaultConfigItem s) (config_pk ev m) = Some row \<and> c \<noteq> 0 \<longrightarrow>
      (\<exists>s' row'. MetaMorpho_SetCap ctx s ev m c = Inr s' \<and>
         db_find (vaultConfigItem s') (config_pk ev m) = Some row' \<and>
         cap row' = int c \<and> pendingCap row' = 0 \<and> pendingCapValidAt row' = 0 \<and>
         enabled row')) \<and>
   (\<forall>row. db_find (vaultConfigItem s) (config_pk ev m) = Some row \<longrightarrow>
      (\<exists>s' row'. MetaMorpho_RevokePendingCap ctx s ev m = Inr s' \<and>
         db_find (vaultConfigItem s') (config_pk ev m) = Some row' \<and>
         pendingCap row' = 0 \<and> pendingCapValidAt row' = 0 \<and> cap row' = cap row))"
  by (simp add: MetaMorpho_SubmitCap_def MetaMorpho_SetCap_def MetaMorpho_RevokePendingCap_def
      Let_def timelock_or_zero_def db_find_upsert_config update_config_found db_find_put_row
      split: option.splits)

theorem cap_lifecycle_witness:
  "db_find (vault ex_db) (vault_pk ex_SubmitCap) = Some ex_vault_row \<and>
   timelock ex_vault_row = 86400 \<and> block_timestamp ex_SubmitCap = 1000 \<and>
   (\<exists>s1. MetaMorpho_SubmitCap (ex_ctx Realtime) ex_db ex_SubmitCap ex_market 100 = Inr s1 \<and>
      db_find (vaultConfigItem s1) (config_pk ex_SubmitCap ex_market) =
        Some \<lparr>cap = 0, pendingCap = 100, pendingCapValidAt = 87400, enabled = False,
              removableAt = 0\<rparr> \<and>
      (\<exists>s2. MetaMorpho_SetCap (ex_ctx Realtime) s1 ex_SubmitCap ex_market 100 = Inr s2 \<and>
         db_find (vaultConfigItem s2) (config_pk ex_SubmitCap ex_market) =
           Some \<lparr>cap = 100, pendingCap = 0, pendingCapValidAt = 0, enabled = True,
                 removableAt = 0\<rparr>) \<and>
      (\<exists>s3. MetaMorpho_RevokePendingCap (ex_ctx Realtime) s1 ex_SubmitCap ex_market = Inr s3 \<and>
         db_find (vaultConfigItem s3) (config_pk ex_SubmitCap ex_market) =
           Some \<lparr>cap = 0, pendingCap = 0, pendingCapValidAt = 0, enabled = False,
                 removableAt = 0\<rparr>))"
  using cap_lifecycle [where s = ex_db and ev = ex_SubmitCap and ctx = "ex_ctx Realtime"
      and m = ex_market and c = 100]
  by (simp add: ex_defs store_defs MetaMorpho_SubmitCap_def MetaMorpho_SetCap_def
      MetaMorpho_RevokePendingCap_def)

text \<open>
  C10. A cap finalization with cap zero on an existing ConfigItem row sets the cap to
  zero and clears the pending cap and its timestamp; the enabled flag and the
  \<^verbatim>\<open>removableAt\<close> timestamp of the row stay as they were.
\<close>

theorem SetCap_zero_keeps_enabled_and_removableAt:
  "\<forall>row. db_find (vaultConfigItem s) (config_pk ev m) = Some row \<longrightarrow>
     (\<exists>s' row'. MetaMorpho_SetCap ctx s ev m 0 = Inr s' \<and>
        db_find (vaultConfigItem s') (config_pk ev m) = Some row' \<and>
        cap row' = 0 \<and> pendingCap row' = 0 \<and> pendingCapValidAt row' = 0 \<and>
        enabled row' = enabled row \<and> removableAt row' = removableAt row)"
  by (simp add: MetaMorpho_SetCap_def Let_def update_config_found db_find_put_row)

theorem SetCap_zero_keeps_enabled_and_removableAt_witness:
  "db_find (vaultConfigItem ex_db_with_market) (config_pk (ex_event 0 (SetCap ex_market 0)) ex_market)
     = Some ex_config_row \<and>
   (\<exists>s'. MetaMorpho_SetCap (ex_ctx Historical) ex_db_with_market (ex_event 0 (SetCap ex_market 0))
           ex_market 0 = Inr s' \<and>
         db_find (vaultConfigItem s') (1, ex_vault, ex_market) =
           Some \<lparr>cap = 0, pendingCap = 0, pendingCapValidAt = 0, enabled = True,
                 removableAt = 5000\<rparr>)"
  using SetCap_zero_keeps_enabled_and_removableAt
      [where s = ex_db_with_market and ev = "ex_event 0 (SetCap ex_market 0)" and m = ex_market
        and ctx = "ex_ctx Historical"]
  by (simp add: ex_defs store_defs MetaMorpho_SetCap_def)

section \<open>Events emitted in the constructor of a vault\<close>

text \<open>
  C9. An ownership transfer, a name, a symbol or a timelock finalization event for a
  vault that has no row completes without an error and returns the store as it is, so
  that no row is created. For a vault that has a row, the event updates the row: the
  owner is set and the pending owner cleared; the name is set; the symbol is set; the
  timelock is set and the pending timelock and its timestamp cleared.
\<close>

theorem constructor_events_tolerate_missing_vault:
  "(db_find (vault s) (vault_pk ev) = None \<longrightarrow>
      MetaMorpho_OwnershipTransferred ctx s ev newOwner = Inr s \<and>
      MetaMorpho_SetName ctx s ev n = Inr s \<and>
      MetaMorpho_SetSymbol ctx s ev sy = Inr s \<and>
      MetaMorpho_SetTimelock ctx s ev newTimelock = Inr s) \<and>
   (\<forall>row. db_find (vault s) (vault_pk ev) = Some row \<longrightarrow>
      (\<exists>s'. MetaMorpho_OwnershipTransferred ctx s ev newOwner = Inr s' \<and>
            db_find (vault s') (vault_pk ev) =
              Some (row\<lparr>owner := newOwner, pendingOwner := zeroAddress\<rparr>)) \<and>
      (\<exists>s'. MetaMorpho_SetName ctx s ev n = Inr s' \<and>
            db_find (vault s') (vault_pk ev) = Some (row\<lparr>name := n\<rparr>)) \<and>
      (\<exists>s'. MetaMorpho_SetSymbol ctx s ev sy = Inr s' \<and>
            db_find (vault s') (vault_pk ev) = Some (row\<lparr>symbol := sy\<rparr>)) \<and>
      (\<exists>s'. MetaMorpho_SetTimelock ctx s ev newTimelock = Inr s' \<and>
            db_find (vault s') (vault_pk ev) =
              Some (row\<lparr>timelock := int newTimelock, pendingTimelock := 0,
                        pendingTimelockValidAt := 0\<rparr>)))"
  by (simp add: MetaMorpho_OwnershipTransferred_def MetaMorpho_SetName_def
      MetaMorpho_SetSymbol_def MetaMorpho_SetTimelock_def update_vault_if_exists_missing
      update_vault_if_exists_found db_find_put_row)

theorem constructor_events_tolerate_missing_vault_witness:
  "db_find (vault empty_db) (vault_pk (ex_event 0 (OwnershipTransferred ex_bob))) = None \<and>
   MetaMorpho_OwnershipTransferred (ex_ctx Historical) empty_db
       (ex_event 0 (OwnershipTransferred ex_bob)) ex_bob = Inr empty_db \<and>
   MetaMorpho_OwnershipTransferred (ex_ctx Realtime) empty_db
       (ex_event 0 (OwnershipTransferred ex_bob)) ex_bob = Inr empty_db \<and>
   db_find (vault ex_db) (vault_pk (ex_event 0 (OwnershipTransferred ex_bob))) = Some ex_vault_row \<and>
   (\<exists>s'. MetaMorpho_OwnershipTransferred (ex_ctx Realtime) ex_db
           (ex_event 0 (OwnershipTransferred ex_bob)) ex_bob = Inr s' \<and>
         map_option (\<lambda>r. (owner r, pendingOwner r)) (db_find (vault s') (1, ex_vault)) =
           Some (ex_bob, zeroAddress))"
  using constructor_events_tolerate_missing_vault
      [where s = empty_db and ev = "ex_event 0 (OwnershipTransferred ex_bob)"
        and newOwner = ex_bob and ctx = "ex_ctx Historical"]
    constructor_events_tolerate_missing_vault
      [where s = empty_db and ev = "ex_event 0 (OwnershipTransferred ex_bob)"
        and newOwner = ex_bob and ctx = "ex_ctx Realtime"]
    constructor_events_tolerate_missing_vault
      [where s = ex_db and ev = "ex_event 0 (OwnershipTransferred ex_bob)"
        and newOwner = ex_bob and ctx = "ex_ctx Realtime"]
  by (simp add: ex_defs store_defs MetaMorpho_OwnershipTransferred_def)

section \<open>Transfers between holders\<close>

lemma Transfer_completes_iff:
  assumes "v \<noteq> 0" "f \<noteq> zeroAddress" "t \<noteq> zeroAddress"
  shows "(\<exists>s'. MetaMorpho_Transfer ctx s ev f t v = Inr s') \<longleftrightarrow>
     db_find (vaultBalance s) (balance_pk ev f) \<noteq> None \<and>
     convertToAssets ctx (chain_id ev) (log_address ev) v \<noteq> None \<and>
     (db_find (transaction s) (transaction_pk ev) = None \<or> store ctx = Historical)"
  using assms
  by (cases "db_find (vaultBalance s) (balance_pk ev f)";
      cases "convertToAssets ctx (chain_id ev) (log_address ev) v";
      cases "db_find (transaction s) (transaction_pk ev)"; cases "store ctx";
      simp add: MetaMorpho_Transfer_def move_shares_def Let_def db_update_fn_def and_then_def
        insert_transaction_def db_insert_def)

lemma Transfer_records:
  assumes "v \<noteq> 0" "f \<noteq> zeroAddress" "t \<noteq> zeroAddress"
    and "db_find (vault s) (vault_pk ev) = Some vrow"
    and "MetaMorpho_Transfer ctx s ev f t v = Inr s'"
  shows "\<exists>row assets. db_find (transaction s') (transaction_pk ev) = Some row \<and>
           type_tag row = (if t = feeRecipient vrow then MetaMorphoFee else MetaMorphoTransfer) \<and>
           vaultShares row = int v \<and>
           convertToAssets ctx (chain_id ev) (log_address ev) v = Some assets \<and>
           vaultAssets row = int assets"
proof -
  from assms(1-3,5) obtain s2 assets where m: "move_shares s ev f t v = Inr s2"
    and c: "convertToAssets ctx (chain_id ev) (log_address ev) v = Some assets"
    and i: "insert_transaction ctx s2 ev
              \<lparr>blockNumber = int (block_number ev),
               timestamp = int (block_timestamp ev),
               type_tag =
                 (if (case db_find (vault s2) (vault_pk ev) of
                        None \<Rightarrow> False
                      | Some vaultRecord \<Rightarrow> t = feeRecipient vaultRecord)
                  then MetaMorphoFee else MetaMorphoTransfer),
               user = f, sender = f, receiver = Some t,
               vaultAddress = log_address ev, tx_marketId = None,
               vaultShares = int v, vaultAssets = int assets\<rparr> = Inr s'"
    by (auto simp: MetaMorpho_Transfer_def and_then_Inr Let_def split: option.splits)
  from insert_transaction_Inr [OF i] move_shares_vault [OF m] assms(4) c
  show ?thesis by simp
qed

text \<open>
  C8. For a transfer of a value that is not zero between two addresses that are not the
  zero address, on a vault that has a row: the handler completes exactly when the
  sender has a balance row, the conversion query answers and the key of the audit row
  is free or the store is the historical one; and whenever it completes, the audit row
  of the event is tagged as a fee when the recipient is the fee recipient of the vault
  row and as a transfer otherwise, its share amount is the value and its asset amount
  is the answer of the conversion query for the value.
\<close>

theorem transfer_classification:
  "\<forall>vrow. v \<noteq> 0 \<and> f \<noteq> zeroAddress \<and> t \<noteq> zeroAddress \<and>
          db_find (vault s) (vault_pk ev) = Some vrow \<longrightarrow>
     ((\<exists>s'. MetaMorpho_Transfer ctx s ev f t v = Inr s') \<longleftrightarrow>
        db_find (vaultBalance s) (balance_pk ev f) \<noteq> None \<and>
        convertToAssets ctx (chain_id ev) (log_address ev) v \<noteq> None \<and>
        (db_find (transaction s) (transaction_pk ev) = None \<or> store ctx = Historical)) \<and>
     (\<forall>s'. MetaMorpho_Transfer ctx s ev f t v = Inr s' \<longrightarrow>
        (\<exists>row assets. db_find (transaction s') (transaction_pk ev) = Some row \<and>
           type_tag row = (if t = feeRecipient vrow then MetaMorphoFee else MetaMorphoTransfer) \<and>
           vaultShares row = int v \<and>
           convertToAssets ctx (chain_id ev) (log_address ev) v = Some assets \<and>
           vaultAssets row = int assets))"
  using Transfer_completes_iff [of v f t ctx s ev] Transfer_records [of v f t s ev _ ctx]
  by blast

theorem transfer_classification_witness:
  "map_option feeRecipient
     (db_find (vault ex_db_funded) (vault_pk (ex_event 0 (Transfer ex_alice ex_treasury 500)))) =
     Some ex_treasury \<and>
   (\<exists>s'. MetaMorpho_Transfer (ex_ctx Realtime) ex_db_funded
           (ex_event 0 (Transfer ex_alice ex_treasury 500)) ex_alice ex_treasury 500 = Inr s' \<and>
         recorded s' = [((1, ''0xabc'', 0), MetaMorphoFee, 500, 1000)]) \<and>
   (\<exists>s'. MetaMorpho_Transfer (ex_ctx Realtime) ex_db_funded
           (ex_event 0 (Transfer ex_alice ex_bob 500)) ex_alice ex_bob 500 = Inr s' \<and>
         recorded s' = [((1, ''0xabc'', 0), MetaMorphoTransfer, 500, 1000)])"
  using transfer_classification [where v = 500 and f = ex_alice and t = ex_treasury
      and s = ex_db_funded and ev = "ex_event 0 (Transfer ex_alice ex_treasury 500)"
      and ctx = "ex_ctx Realtime"]
    transfer_classification [where v = 500 and f = ex_alice and t = ex_bob
      and s = ex_db_funded and ev = "ex_event 0 (Transfer ex_alice ex_bob 500)"
      and ctx = "ex_ctx Realtime"]
  by (simp add: ex_defs store_defs MetaMorpho_Transfer_def move_shares_def recorded_def)

section \<open>Replaying a Transfer event\<close>

lemma Transfer_zero: "MetaMorpho_Transfer ctx s ev f t 0 = Inr s"
  by (simp add: MetaMorpho_Transfer_def)

text \<open>What a transfer between holders that has completed leaves in the store.\<close>

lemma Transfer_leaves:
  assumes "v \<noteq> 0" "f \<noteq> zeroAddress" "t \<noteq> zeroAddress"
    and "MetaMorpho_Transfer ctx s ev f t v = Inr s1"
  shows "db_find (vaultBalance s1) (balance_pk ev f) \<noteq> None"
    and "db_find (transaction s1) (transaction_pk ev) \<noteq> None"
    and "convertToAssets ctx (chain_id ev) (log_address ev) v \<noteq> None"
proof -
  from assms obtain s2 row where m: "move_shares s ev f t v = Inr s2"
    and c: "convertToAssets ctx (chain_id ev) (log_address ev) v \<noteq> None"
    and i: "insert_transaction ctx s2 ev row = Inr s1"
    by (auto simp: MetaMorpho_Transfer_def and_then_Inr Let_def split: option.splits)
  from m have "db_find (vaultBalance s2) (balance_pk ev f) \<noteq> None"
    by (auto simp: move_shares_Inr_iff upsert_write_def db_find_put_row db_find_append
        split: option.splits)
  with insert_transaction_Inr [OF i]
  show "db_find (vaultBalance s1) (balance_pk ev f) \<noteq> None" by simp
  from insert_transaction_Inr [OF i]
  show "db_find (transaction s1) (transaction_pk ev) \<noteq> None" by simp
  from c show "convertToAssets ctx (chain_id ev) (log_address ev) v \<noteq> None" .
qed

lemma Transfer_replay_transfer_realtime:
  assumes "v \<noteq> 0" "f \<noteq> zeroAddress" "t \<noteq> zeroAddress" and "store ctx = Realtime"
    and "MetaMorpho_Transfer ctx s ev f t v = Inr s1"
  shows "MetaMorpho_Transfer ctx s1 ev f t v = Inl (UniqueConstraint T_transaction)"
  using Transfer_leaves [OF assms(1-3,5)] assms(1-4)
  by (auto simp: MetaMorpho_Transfer_def move_shares_def Let_def db_update_fn_def and_then_def
      insert_transaction_def db_insert_def)

lemma Transfer_replay_transfer_historical:
  assumes "v \<noteq> 0" "f \<noteq> zeroAddress" "t \<noteq> zeroAddress" and "store ctx = Historical"
    and "MetaMorpho_Transfer ctx s ev f t v = Inr s1"
  shows "\<exists>s2. MetaMorpho_Transfer ctx s1 ev f t v = Inr s2 \<and>
           total_supply s2 ev = total_supply s1 ev \<and>
           balance_of s2 ev t = balance_of s1 ev t + int v \<and>
           (f \<noteq> t \<longrightarrow> balance_of s2 ev f = balance_of s1 ev f - int v)"
proof -
  from Transfer_leaves [OF assms(1-3,5)] assms(4)
  obtain s2 where r: "MetaMorpho_Transfer ctx s1 ev f t v = Inr s2"
    using Transfer_completes_iff [OF assms(1-3), of ctx s1 ev] by blast
  with Transfer_transfer_moves [OF r assms(1-3)] show ?thesis by blast
qed

lemma Transfer_replay_mint:
  assumes "v \<noteq> 0" and "MetaMorpho_Transfer ctx s ev zeroAddress t v = Inr s1"
  shows "\<exists>s2 n. MetaMorpho_Transfer ctx s1 ev zeroAddress t v = Inr s2 \<and>
           total_supply s1 ev = Some n \<and> total_supply s2 ev = Some (n + int v) \<and>
           balance_sum (vaultBalance s2) (chain_id ev) (log_address ev) =
             balance_sum (vaultBalance s1) (chain_id ev) (log_address ev) + int v"
  using assms
  by (auto simp: MetaMorpho_Transfer_def and_then_Inr update_vault_fn_Inr credit_simps
      db_find_put_row total_supply_def)

lemma Transfer_replay_burn:
  assumes "v \<noteq> 0" "f \<noteq> zeroAddress"
    and "MetaMorpho_Transfer ctx s ev f zeroAddress v = Inr s1"
  shows "\<exists>s2 n. MetaMorpho_Transfer ctx s1 ev f zeroAddress v = Inr s2 \<and>
           total_supply s1 ev = Some n \<and> total_supply s2 ev = Some (n - int v) \<and>
           balance_sum (vaultBalance s2) (chain_id ev) (log_address ev) =
             balance_sum (vaultBalance s1) (chain_id ev) (log_address ev) - int v"
proof -
  from assms obtain row old where
    r: "db_find (vault s) (vault_pk ev) = Some row"
    and o: "db_find (vaultBalance s) (balance_pk ev f) = Some old"
    and s1: "s1 = s\<lparr>vault := put_row (vault_pk ev) (row\<lparr>totalSupply := totalSupply row - int v\<rparr>)
                          (vault s),
                   vaultBalance := put_row (balance_pk ev f) (old\<lparr>shares := shares old - int v\<rparr>)
                          (vaultBalance s)\<rparr>"
    by (auto simp: MetaMorpho_Transfer_def and_then_Inr update_vault_fn_Inr debit_Inr_iff)
  have v1: "db_find (vault s1) (vault_pk ev) = Some (row\<lparr>totalSupply := totalSupply row - int v\<rparr>)"
    and b1: "db_find (vaultBalance s1) (balance_pk ev f) = Some (old\<lparr>shares := shares old - int v\<rparr>)"
    by (simp_all add: s1 db_find_put_row)
  show ?thesis
    using assms(1,2) v1 b1
    by (simp add: MetaMorpho_Transfer_def update_vault_fn_found debit_found and_then_def
        total_supply_def db_find_put_row balance_sum_put_row balance_pk_def)
qed

text \<open>
  C5 (as the handler has it). When a Transfer event has been applied and is applied
  again to the store that resulted: an event of value zero changes nothing; a mint and
  a burn are applied a second time, the total supply of the vault and the sum of its
  balances moving by the value once more; a transfer between two holders is rejected
  on the realtime store, because the key of its audit row is taken; on the historical
  store, which does not look at the key, it is applied a second time, and the balance
  of the recipient grows by the value once more.
\<close>

theorem replay_of_a_Transfer_event:
  "\<forall>s1. MetaMorpho_Transfer ctx s ev f t v = Inr s1 \<longrightarrow>
     (v = 0 \<longrightarrow> MetaMorpho_Transfer ctx s1 ev f t v = Inr s1) \<and>
     (v \<noteq> 0 \<and> f \<noteq> zeroAddress \<and> t \<noteq> zeroAddress \<and> store ctx = Realtime \<longrightarrow>
        MetaMorpho_Transfer ctx s1 ev f t v = Inl (UniqueConstraint T_transaction)) \<and>
     (v \<noteq> 0 \<and> f \<noteq> zeroAddress \<and> t \<noteq> zeroAddress \<and> store ctx = Historical \<longrightarrow>
        (\<exists>s2. MetaMorpho_Transfer ctx s1 ev f t v = Inr s2 \<and>
           total_supply s2 ev = total_supply s1 ev \<and>
           balance_of s2 ev t = balance_of s1 ev t + int v \<and>
           (f \<noteq> t \<longrightarrow> balance_of s2 ev f = balance_of s1 ev f - int v))) \<and>
     (v \<noteq> 0 \<and> f = zeroAddress \<longrightarrow>
        (\<exists>s2 n. MetaMorpho_Transfer ctx s1 ev f t v = Inr s2 \<and>
           total_supply s1 ev = Some n \<and> total_supply s2 ev = Some (n + int v) \<and>
           balance_sum (vaultBalance s2) (chain_id ev) (log_address ev) =
             balance_sum (vaultBalance s1) (chain_id ev) (log_address ev) + int v)) \<and>
     (v \<noteq> 0 \<and> f \<noteq> zeroAddress \<and> t = zeroAddress \<longrightarrow>
        (\<exists>s2 n. MetaMorpho_Transfer ctx s1 ev f t v = Inr s2 \<and>
           total_supply s1 ev = Some n \<and> total_supply s2 ev = Some (n - int v) \<and>
           balance_sum (vaultBalance s2) (chain_id ev) (log_address ev) =
             balance_sum (vaultBalance s1) (chain_id ev) (log_address ev) - int v))"
  using Transfer_zero [of ctx _ ev f t] Transfer_replay_transfer_realtime [of v f t ctx s ev]
    Transfer_replay_transfer_historical [of v f t ctx s ev]
    Transfer_replay_mint [of v ctx s ev t] Transfer_replay_burn [of v f ctx s ev]
  by blast

theorem replay_of_a_Transfer_event_witness:
  "MetaMorpho_Transfer (ex_ctx Realtime) ex_db ex_transfer ex_alice ex_bob 0 = Inr ex_db \<and>
   MetaMorpho_Transfer (ex_ctx Realtime) ex_db_funded ex_transfer ex_alice ex_bob 500 =
     Inr ex_db_after_transfer \<and>
   MetaMorpho_Transfer (ex_ctx Realtime) ex_db_after_transfer ex_transfer ex_alice ex_bob 500 =
     Inl (UniqueConstraint T_transaction) \<and>
   MetaMorpho_Transfer (ex_ctx Historical) ex_db_funded ex_transfer ex_alice ex_bob 500 =
     Inr ex_db_after_transfer \<and>
   balance_of ex_db_after_transfer ex_transfer ex_bob = 500 \<and>
   (\<exists>s2. MetaMorpho_Transfer (ex_ctx Historical) ex_db_after_transfer ex_transfer ex_alice ex_bob
            500 = Inr s2 \<and>
         balance_of s2 ex_transfer ex_bob = 1000 \<and> balance_of s2 ex_transfer ex_alice = 0) \<and>
   MetaMorpho_Transfer (ex_ctx Realtime) ex_db ex_mint zeroAddress ex_alice 100 =
     Inr (ex_db_minted 100) \<and>
   (\<exists>s2. MetaMorpho_Transfer (ex_ctx Realtime) (ex_db_minted 100) ex_mint zeroAddress ex_alice 100 =
           Inr s2 \<and>
         total_supply s2 ex_mint = Some 200)"
proof -
  have ne: "ex_alice \<noteq> zeroAddress" "ex_bob \<noteq> zeroAddress" "ex_alice \<noteq> ex_bob"
    "store (ex_ctx Historical) = Historical" "store (ex_ctx Realtime) = Realtime"
    by (simp_all add: ex_alice_def ex_bob_def zeroAddress_def ex_ctx_def)
  have z: "MetaMorpho_Transfer (ex_ctx Realtime) ex_db ex_transfer ex_alice ex_bob 0 = Inr ex_db"
    by (simp add: MetaMorpho_Transfer_def)
  have a: "MetaMorpho_Transfer (ex_ctx Realtime) ex_db_funded ex_transfer ex_alice ex_bob 500 =
      Inr ex_db_after_transfer"
    and h: "MetaMorpho_Transfer (ex_ctx Historical) ex_db_funded ex_transfer ex_alice ex_bob 500 =
      Inr ex_db_after_transfer"
    by (simp_all add: ex_defs store_defs MetaMorpho_Transfer_def move_shares_def)
  have bb: "balance_of ex_db_after_transfer ex_transfer ex_bob = 500"
    and ba: "balance_of ex_db_after_transfer ex_transfer ex_alice = 500"
    by (simp_all add: balance_of_def ex_defs store_defs)
  have m: "MetaMorpho_Transfer (ex_ctx Realtime) ex_db ex_mint zeroAddress ex_alice 100 =
      Inr (ex_db_minted 100)"
    and m1: "total_supply (ex_db_minted 100) ex_mint = Some 100"
    by (simp_all add: ex_defs store_defs MetaMorpho_Transfer_def credit_def total_supply_def)
  from replay_of_a_Transfer_event [where ctx = "ex_ctx Realtime" and s = ex_db_funded
      and ev = ex_transfer and f = ex_alice and t = ex_bob and v = 500] a
  have b: "MetaMorpho_Transfer (ex_ctx Realtime) ex_db_after_transfer ex_transfer ex_alice ex_bob
      500 = Inl (UniqueConstraint T_transaction)"
    by (simp add: ne)
  from replay_of_a_Transfer_event [where ctx = "ex_ctx Historical" and s = ex_db_funded
      and ev = ex_transfer and f = ex_alice and t = ex_bob and v = 500] h bb ba
  have c: "\<exists>s2. MetaMorpho_Transfer (ex_ctx Historical) ex_db_after_transfer ex_transfer ex_alice
      ex_bob 500 = Inr s2 \<and>
      balance_of s2 ex_transfer ex_bob = 1000 \<and> balance_of s2 ex_transfer ex_alice = 0"
    by (auto simp: ne)
  from replay_of_a_Transfer_event [where ctx = "ex_ctx Realtime" and s = ex_db
      and ev = ex_mint and f = zeroAddress and t = ex_alice and v = 100] m m1
  have d: "\<exists>s2. MetaMorpho_Transfer (ex_ctx Realtime) (ex_db_minted 100) ex_mint zeroAddress
      ex_alice 100 = Inr s2 \<and> total_supply s2 ex_mint = Some 200"
    by auto
  from z a b h bb c m d show ?thesis by (intro conjI)
qed

text \<open>
  A mint of 100 shares that is applied twice to the example store is counted twice, on
  either store: the total supply and the balance of the recipient are 100 after the
  first application and 200 after the second.
\<close>

theorem replayed_mint_is_applied_twice:
  "handle (ex_ctx Historical) ex_db ex_mint = Inr (ex_db_minted 100) \<and>
   handle (ex_ctx Historical) (ex_db_minted 100) ex_mint = Inr (ex_db_minted 200) \<and>
   handle (ex_ctx Realtime) ex_db ex_mint = Inr (ex_db_minted 100) \<and>
   handle (ex_ctx Realtime) (ex_db_minted 100) ex_mint = Inr (ex_db_minted 200) \<and>
   total_supply (ex_db_minted 100) ex_mint = Some 100 \<and>
   total_supply (ex_db_minted 200) ex_mint = Some 200 \<and>
   balance_of (ex_db_minted 100) ex_mint ex_alice = 100 \<and>
   balance_of (ex_db_minted 200) ex_mint ex_alice = 200"
  by (simp add: handle_def ex_defs store_defs MetaMorpho_Transfer_def credit_def
      total_supply_def balance_of_def)

end
